theory Spec2Isabelle
  imports Complex_Main "HOL-Library.Word"
begin

unbundle bit_operations_syntax

section \<open>ANT+ speed and cadence device profiles (ant/plus/speed_cadence.py)\<close>

text \<open>
  The module defines three device profiles, \<open>BikeSpeed\<close>, \<open>BikeCadence\<close> and
  \<open>SpeedCadence\<close>. Each keeps, per counter, a \<open>deque([0, 0], maxlen=2)\<close> holding the
  last two samples, appends the fields of every processed page and derives speed, distance
  and cadence from the difference of the two held samples.

  Conventions of the embedding:
  \<^item> Python integers are \<open>int\<close>; a page is a list of bytes (\<open>8 word\<close>).
  \<^item> Python floats are idealised as \<open>real\<close>: the arithmetic expressions are those of the
    source, operator by operator, evaluated exactly instead of with IEEE rounding.
  \<^item> A measurement that is \<open>None\<close> in Python is \<open>None\<close> here, a number \<open>x\<close> is \<open>Some x\<close>.
  \<^item> \<open>data[0]\<close> on an empty buffer raises \<open>IndexError\<close>; \<open>processData\<close> therefore returns
    \<open>error + (state \<times> calls)\<close>, where the calls are the callback invocations it made, in
    order.
  \<^item> \<open>with self.lock\<close> only serialises concurrent calls and is not modelled: a call is one
    atomic step from state to state.
\<close>

subsection \<open>Bytes, slices and little-endian fields\<close>

type_synonym byte = "8 word"

datatype error = IndexError

text \<open>\<open>data[i:j]\<close> for \<open>0 \<le> i \<le> j\<close>: slicing never raises, it returns what is there.\<close>

definition slice :: "nat \<Rightarrow> nat \<Rightarrow> 'a list \<Rightarrow> 'a list" where
  "slice i j data = take (j - i) (drop i data)"

text \<open>\<open>int.from_bytes(bs, byteorder='little')\<close>; the empty slice gives 0.\<close>

fun from_bytes_little :: "byte list \<Rightarrow> int" where
  "from_bytes_little [] = 0"
| "from_bytes_little (b # bs) = uint b + 256 * from_bytes_little bs"

subsection \<open>The two-slot history\<close>

text \<open>
  \<open>deque([a, b], maxlen=2)\<close>. Every deque of the module is created full, with two
  elements, and the only operations applied to it are \<open>append\<close>, \<open>[0]\<close> and \<open>[1]\<close>. On a
  full bounded deque \<open>append\<close> discards the leftmost element, so the deque holds exactly
  two elements at all times: \<open>older\<close> is \<open>d[0]\<close> and \<open>newer\<close> is \<open>d[1]\<close>.
\<close>

datatype deque2 = Deque2 (older: int) (newer: int)

fun append_deque :: "deque2 \<Rightarrow> int \<Rightarrow> deque2" where
  "append_deque (Deque2 a b) x = Deque2 b x"

subsection \<open>The wraparound difference\<close>

text \<open>
  Modelled from the spec: \<open>wrapDifference\<close> is a method of the base class
  \<open>DeviceProfile\<close> (module \<open>ant.plus.plus\<close>), which is not part of the source at hand.
  The specification gives it as \<open>wrap_diff(new, old) = (new - old) mod M\<close> for the modulus
  \<open>M\<close>, a value in \<open>[0, M)\<close>. Python's \<open>%\<close> and HOL's \<open>mod\<close> on \<open>int\<close> agree: for a positive
  modulus the result is non-negative.
\<close>

definition wrapDifference :: "int \<Rightarrow> int \<Rightarrow> int \<Rightarrow> int" where
  "wrapDifference current previous mx = (current - previous) mod mx"

subsection \<open>Callbacks\<close>

text \<open>
  The dictionary \<open>self.callbacks\<close> is kept by \<open>DeviceProfile\<close>. The profiles only look a
  name up and call what they find, so a state records the set of event names that have a
  callback registered, and a call is recorded with its arguments.
\<close>

datatype call = OnSpeedData "real option" "real option" | OnCadenceData "real option"

subsection \<open>BikeSpeed\<close>

record BikeSpeed =
  bs_speed :: "real option"
  bs_distance :: "real option"
  bs_wheel_circumference :: real
  bs_bike_speed_event_time :: deque2
  bs_cumulative_speed_revolution :: deque2
  bs_page_toggle_observed :: bool
  bs_page_toggle :: "int option"
  bs_callbacks :: "string set"

text \<open>\<open>BikeSpeed.__init__\<close>\<close>

definition BikeSpeed_init :: "real \<Rightarrow> string set \<Rightarrow> BikeSpeed" where
  "BikeSpeed_init wheel_circumference callbacks =
     \<lparr> bs_speed = Some 0,
       bs_distance = Some 0,
       bs_wheel_circumference = wheel_circumference,
       bs_bike_speed_event_time = Deque2 0 0,
       bs_cumulative_speed_revolution = Deque2 0 0,
       bs_page_toggle_observed = False,
       bs_page_toggle = None,
       bs_callbacks = callbacks \<rparr>"

text \<open>\<open>BikeSpeed.calculate_speed\<close>\<close>

definition BikeSpeed_calculate_speed :: "BikeSpeed \<Rightarrow> real \<Rightarrow> real option" where
  "BikeSpeed_calculate_speed self wheel_circumference =
     (if older (bs_cumulative_speed_revolution self) = 0 then None
      else if older (bs_bike_speed_event_time self) = 0 then None
      else
        let delta_rev_count =
              wrapDifference (newer (bs_cumulative_speed_revolution self))
                (older (bs_cumulative_speed_revolution self)) 65536;
            delta_event_time =
              wrapDifference (newer (bs_bike_speed_event_time self))
                (older (bs_bike_speed_event_time self)) 65536
        in if delta_event_time > 0
           then Some (((wheel_circumference * of_int delta_rev_count * 1024)
                        / of_int delta_event_time) * 3.6)
           else None)"

text \<open>\<open>BikeSpeed.calculate_distance\<close>\<close>

definition BikeSpeed_calculate_distance :: "BikeSpeed \<Rightarrow> real \<Rightarrow> real option" where
  "BikeSpeed_calculate_distance self wheel_circumference =
     (if older (bs_cumulative_speed_revolution self) = 0 then None
      else
        let delta_rev_count =
              wrapDifference (newer (bs_cumulative_speed_revolution self))
                (older (bs_cumulative_speed_revolution self)) 65536
        in Some (wheel_circumference * of_int delta_rev_count))"

text \<open>\<open>BikeSpeed.processData\<close>\<close>

definition BikeSpeed_processData :: "BikeSpeed \<Rightarrow> byte list \<Rightarrow> error + (BikeSpeed \<times> call list)" where
  "BikeSpeed_processData self data =
     (case data of
        [] \<Rightarrow> Inl IndexError
      | b0 # _ \<Rightarrow>
          let page = uint b0 AND 0x7f;
              page_toggle = drop_bit 7 (uint b0);
              self =
                (if \<not> bs_page_toggle_observed self then
                   (if bs_page_toggle self = None
                    then self\<lparr>bs_page_toggle := Some page_toggle\<rparr>
                    else if bs_page_toggle self \<noteq> Some page_toggle
                         then self\<lparr>bs_page_toggle_observed := True\<rparr>
                         else self)
                 else self);
              self = self\<lparr>bs_bike_speed_event_time :=
                       append_deque (bs_bike_speed_event_time self)
                         (from_bytes_little (slice 4 6 data))\<rparr>;
              self = self\<lparr>bs_cumulative_speed_revolution :=
                       append_deque (bs_cumulative_speed_revolution self)
                         (from_bytes_little (slice 6 8 data))\<rparr>;
              self = self\<lparr>bs_speed :=
                       BikeSpeed_calculate_speed self (bs_wheel_circumference self)\<rparr>;
              self = self\<lparr>bs_distance :=
                       BikeSpeed_calculate_distance self (bs_wheel_circumference self)\<rparr>
          in Inr (self,
                  if ''onSpeedData'' \<in> bs_callbacks self
                  then [OnSpeedData (bs_speed self) (bs_distance self)]
                  else []))"

subsection \<open>BikeCadence\<close>

record BikeCadence =
  bc_cadence :: "real option"
  bc_bike_cadence_event_time :: deque2
  bc_cumulative_cadence_revolution :: deque2
  bc_page_toggle_observed :: bool
  bc_page_toggle :: "int option"
  bc_callbacks :: "string set"

text \<open>\<open>BikeCadence.__init__\<close>\<close>

definition BikeCadence_init :: "string set \<Rightarrow> BikeCadence" where
  "BikeCadence_init callbacks =
     \<lparr> bc_cadence = Some 0,
       bc_bike_cadence_event_time = Deque2 0 0,
       bc_cumulative_cadence_revolution = Deque2 0 0,
       bc_page_toggle_observed = False,
       bc_page_toggle = None,
       bc_callbacks = callbacks \<rparr>"

text \<open>\<open>BikeCadence.calculate_cadence\<close>\<close>

definition BikeCadence_calculate_cadence :: "BikeCadence \<Rightarrow> real option" where
  "BikeCadence_calculate_cadence self =
     (if older (bc_cumulative_cadence_revolution self) = 0 then None
      else if older (bc_bike_cadence_event_time self) = 0 then None
      else
        let delta_rev_count =
              wrapDifference (newer (bc_cumulative_cadence_revolution self))
                (older (bc_cumulative_cadence_revolution self)) 65536;
            delta_event_time =
              wrapDifference (newer (bc_bike_cadence_event_time self))
                (older (bc_bike_cadence_event_time self)) 65536
        in if delta_event_time > 0
           then Some (of_int (60 * delta_rev_count * 1024) / of_int delta_event_time)
           else None)"

text \<open>\<open>BikeCadence.processData\<close>\<close>

definition BikeCadence_processData ::
  "BikeCadence \<Rightarrow> byte list \<Rightarrow> error + (BikeCadence \<times> call list)" where
  "BikeCadence_processData self data =
     (case data of
        [] \<Rightarrow> Inl IndexError
      | b0 # _ \<Rightarrow>
          let page = uint b0 AND 0x7f;
              page_toggle = drop_bit 7 (uint b0);
              self =
                (if \<not> bc_page_toggle_observed self then
                   (if bc_page_toggle self = None
                    then self\<lparr>bc_page_toggle := Some page_toggle\<rparr>
                    else if bc_page_toggle self \<noteq> Some page_toggle
                         then self\<lparr>bc_page_toggle_observed := True\<rparr>
                         else self)
                 else self);
              self = self\<lparr>bc_bike_cadence_event_time :=
                       append_deque (bc_bike_cadence_event_time self)
                         (from_bytes_little (slice 4 6 data))\<rparr>;
              self = self\<lparr>bc_cumulative_cadence_revolution :=
                       append_deque (bc_cumulative_cadence_revolution self)
                         (from_bytes_little (slice 6 8 data))\<rparr>;
              self = self\<lparr>bc_cadence := BikeCadence_calculate_cadence self\<rparr>
          in Inr (self,
                  if ''onCadenceData'' \<in> bc_callbacks self
                  then [OnCadenceData (bc_cadence self)]
                  else []))"

subsection \<open>SpeedCadence\<close>

record SpeedCadence =
  sc_speed :: "real option"
  sc_cadence :: "real option"
  sc_distance :: "real option"
  sc_wheel_circumference :: real
  sc_bike_cadence_event_time :: deque2
  sc_cumulative_cadence_revolution :: deque2
  sc_bike_speed_event_time :: deque2
  sc_cumulative_speed_revolution :: deque2
  sc_callbacks :: "string set"

text \<open>\<open>SpeedCadence.__init__\<close>\<close>

definition SpeedCadence_init :: "real \<Rightarrow> string set \<Rightarrow> SpeedCadence" where
  "SpeedCadence_init wheel_circumference callbacks =
     \<lparr> sc_speed = Some 0,
       sc_cadence = Some 0,
       sc_distance = Some 0,
       sc_wheel_circumference = wheel_circumference,
       sc_bike_cadence_event_time = Deque2 0 0,
       sc_cumulative_cadence_revolution = Deque2 0 0,
       sc_bike_speed_event_time = Deque2 0 0,
       sc_cumulative_speed_revolution = Deque2 0 0,
       sc_callbacks = callbacks \<rparr>"

text \<open>\<open>SpeedCadence.calculate_speed\<close>\<close>

definition SpeedCadence_calculate_speed :: "SpeedCadence \<Rightarrow> real \<Rightarrow> real option" where
  "SpeedCadence_calculate_speed self wheel_circumference =
     (if older (sc_cumulative_speed_revolution self) = 0 then None
      else if older (sc_bike_speed_event_time self) = 0 then None
      else
        let delta_rev_count =
              wrapDifference (newer (sc_cumulative_speed_revolution self))
                (older (sc_cumulative_speed_revolution self)) 65536;
            delta_event_time =
              wrapDifference (newer (sc_bike_speed_event_time self))
                (older (sc_bike_speed_event_time self)) 65536
        in if delta_event_time > 0
           then Some (((wheel_circumference * of_int delta_rev_count * 1024)
                        / of_int delta_event_time) * 3.6)
           else None)"

text \<open>\<open>SpeedCadence.calculate_distance\<close>\<close>

definition SpeedCadence_calculate_distance :: "SpeedCadence \<Rightarrow> real \<Rightarrow> real option" where
  "SpeedCadence_calculate_distance self wheel_circumference =
     (if older (sc_cumulative_speed_revolution self) = 0 then None
      else
        let delta_rev_count =
              wrapDifference (newer (sc_cumulative_speed_revolution self))
                (older (sc_cumulative_speed_revolution self)) 65536
        in Some (wheel_circumference * of_int delta_rev_count))"

text \<open>\<open>SpeedCadence.calculate_cadence\<close>\<close>

definition SpeedCadence_calculate_cadence :: "SpeedCadence \<Rightarrow> real option" where
  "SpeedCadence_calculate_cadence self =
     (if older (sc_cumulative_cadence_revolution self) = 0 then None
      else if older (sc_bike_cadence_event_time self) = 0 then None
      else
        let delta_rev_count =
              wrapDifference (newer (sc_cumulative_cadence_revolution self))
                (older (sc_cumulative_cadence_revolution self)) 65536;
            delta_event_time =
              wrapDifference (newer (sc_bike_cadence_event_time self))
                (older (sc_bike_cadence_event_time self)) 65536
        in if delta_event_time > 0
           then Some (of_int (60 * delta_rev_count * 1024) / of_int delta_event_time)
           else None)"

text \<open>\<open>SpeedCadence.processData\<close>\<close>

definition SpeedCadence_processData ::
  "SpeedCadence \<Rightarrow> byte list \<Rightarrow> error + (SpeedCadence \<times> call list)" where
  "SpeedCadence_processData self data =
     (case data of
        [] \<Rightarrow> Inl IndexError
      | page # _ \<Rightarrow>
          if (uint page AND 0x0F) \<le> 5 then
            let self = self\<lparr>sc_bike_cadence_event_time :=
                         append_deque (sc_bike_cadence_event_time self)
                           (from_bytes_little (slice 0 2 data))\<rparr>;
                self = self\<lparr>sc_cumulative_cadence_revolution :=
                         append_deque (sc_cumulative_cadence_revolution self)
                           (from_bytes_little (slice 2 4 data))\<rparr>;
                self = self\<lparr>sc_bike_speed_event_time :=
                         append_deque (sc_bike_speed_event_time self)
                           (from_bytes_little (slice 4 6 data))\<rparr>;
                self = self\<lparr>sc_cumulative_speed_revolution :=
                         append_deque (sc_cumulative_speed_revolution self)
                           (from_bytes_little (slice 6 8 data))\<rparr>;
                self = self\<lparr>sc_speed :=
                         SpeedCadence_calculate_speed self (sc_wheel_circumference self)\<rparr>;
                self = self\<lparr>sc_distance :=
                         SpeedCadence_calculate_distance self (sc_wheel_circumference self)\<rparr>;
                self = self\<lparr>sc_cadence := SpeedCadence_calculate_cadence self\<rparr>
            in Inr (self,
                    (if ''onSpeedData'' \<in> sc_callbacks self
                     then [OnSpeedData (sc_speed self) (sc_distance self)]
                     else [])
                    @ (if ''onCadenceData'' \<in> sc_callbacks self
                       then [OnCadenceData (sc_cadence self)]
                       else []))
          else Inr (self, []))"

subsection \<open>Processing a sequence of pages\<close>

text \<open>
  Consecutive calls of \<open>processData\<close> on one profile object: the state is threaded through,
  the first exception ends the run.
\<close>

fun BikeSpeed_processAll :: "BikeSpeed \<Rightarrow> byte list list \<Rightarrow> error + BikeSpeed" where
  "BikeSpeed_processAll self [] = Inr self"
| "BikeSpeed_processAll self (data # rest) =
     (case BikeSpeed_processData self data of
        Inl e \<Rightarrow> Inl e
      | Inr (self', _) \<Rightarrow> BikeSpeed_processAll self' rest)"

fun BikeCadence_processAll :: "BikeCadence \<Rightarrow> byte list list \<Rightarrow> error + BikeCadence" where
  "BikeCadence_processAll self [] = Inr self"
| "BikeCadence_processAll self (data # rest) =
     (case BikeCadence_processData self data of
        Inl e \<Rightarrow> Inl e
      | Inr (self', _) \<Rightarrow> BikeCadence_processAll self' rest)"

text \<open>The toggle bit of a page, \<open>data[0] >> 7\<close>; an empty buffer has none.\<close>

fun toggle_bit :: "byte list \<Rightarrow> int option" where
  "toggle_bit [] = None"
| "toggle_bit (b0 # _) = Some (drop_bit 7 (uint b0))"

text \<open>The two differences every calculation takes, named for the statements below.\<close>

abbreviation bs_delta_rev_count :: "BikeSpeed \<Rightarrow> int" where
  "bs_delta_rev_count self \<equiv>
     wrapDifference (newer (bs_cumulative_speed_revolution self))
       (older (bs_cumulative_speed_revolution self)) 65536"

abbreviation bs_delta_event_time :: "BikeSpeed \<Rightarrow> int" where
  "bs_delta_event_time self \<equiv>
     wrapDifference (newer (bs_bike_speed_event_time self))
       (older (bs_bike_speed_event_time self)) 65536"

abbreviation bc_delta_rev_count :: "BikeCadence \<Rightarrow> int" where
  "bc_delta_rev_count self \<equiv>
     wrapDifference (newer (bc_cumulative_cadence_revolution self))
       (older (bc_cumulative_cadence_revolution self)) 65536"

abbreviation bc_delta_event_time :: "BikeCadence \<Rightarrow> int" where
  "bc_delta_event_time self \<equiv>
     wrapDifference (newer (bc_bike_cadence_event_time self))
       (older (bc_bike_cadence_event_time self)) 65536"

abbreviation sc_speed_delta_rev_count :: "SpeedCadence \<Rightarrow> int" where
  "sc_speed_delta_rev_count self \<equiv>
     wrapDifference (newer (sc_cumulative_speed_revolution self))
       (older (sc_cumulative_speed_revolution self)) 65536"

abbreviation sc_speed_delta_event_time :: "SpeedCadence \<Rightarrow> int" where
  "sc_speed_delta_event_time self \<equiv>
     wrapDifference (newer (sc_bike_speed_event_time self))
       (older (sc_bike_speed_event_time self)) 65536"

abbreviation sc_cadence_delta_rev_count :: "SpeedCadence \<Rightarrow> int" where
  "sc_cadence_delta_rev_count self \<equiv>
     wrapDifference (newer (sc_cumulative_cadence_revolution self))
       (older (sc_cumulative_cadence_revolution self)) 65536"

abbreviation sc_cadence_delta_event_time :: "SpeedCadence \<Rightarrow> int" where
  "sc_cadence_delta_event_time self \<equiv>
     wrapDifference (newer (sc_bike_cadence_event_time self))
       (older (sc_bike_cadence_event_time self)) 65536"

subsection \<open>Example states\<close>

text \<open>
  States with given deque contents, used where a statement is evaluated at a concrete
  input: a profile as constructed (wheel circumference 2.105 m, callbacks registered for
  the events it emits) whose histories have been set to the given two samples.
\<close>

definition bs_state :: "deque2 \<Rightarrow> deque2 \<Rightarrow> BikeSpeed" where
  "bs_state event_time revolution =
     (BikeSpeed_init 2.105 {''onSpeedData''})
       \<lparr> bs_bike_speed_event_time := event_time,
         bs_cumulative_speed_revolution := revolution \<rparr>"

definition bc_state :: "deque2 \<Rightarrow> deque2 \<Rightarrow> BikeCadence" where
  "bc_state event_time revolution =
     (BikeCadence_init {''onCadenceData''})
       \<lparr> bc_bike_cadence_event_time := event_time,
         bc_cumulative_cadence_revolution := revolution \<rparr>"

definition sc_state :: "deque2 \<Rightarrow> deque2 \<Rightarrow> deque2 \<Rightarrow> deque2 \<Rightarrow> SpeedCadence" where
  "sc_state cadence_event_time cadence_revolution speed_event_time speed_revolution =
     (SpeedCadence_init 2.105 {''onSpeedData'', ''onCadenceData''})
       \<lparr> sc_bike_cadence_event_time := cadence_event_time,
         sc_cumulative_cadence_revolution := cadence_revolution,
         sc_bike_speed_event_time := speed_event_time,
         sc_cumulative_speed_revolution := speed_revolution \<rparr>"

section \<open>Properties\<close>

subsection \<open>Auxiliary facts\<close>

lemmas ex_defs = bs_state_def bc_state_def sc_state_def BikeSpeed_init_def BikeCadence_init_def
  SpeedCadence_init_def

lemma wrapDifference_self: "wrapDifference a a 65536 = 0"
  by (simp add: wrapDifference_def)

lemma slice_page:
  "slice 0 2 [x0, x1, x2, x3, x4, x5, x6, x7] = [x0, x1]"
  "slice 2 4 [x0, x1, x2, x3, x4, x5, x6, x7] = [x2, x3]"
  "slice 4 6 [x0, x1, x2, x3, x4, x5, x6, x7] = [x4, x5]"
  "slice 6 8 [x0, x1, x2, x3, x4, x5, x6, x7] = [x6, x7]"
  by (simp_all add: slice_def)

lemma append_deque_eq: "append_deque d x = Deque2 (newer d) x"
  by (cases d) simp

text \<open>The calculations read the deques only: storing a result does not change them.\<close>

lemma BikeSpeed_calculate_speed_upd [simp]:
  "BikeSpeed_calculate_speed (s\<lparr>bs_speed := x\<rparr>) wc = BikeSpeed_calculate_speed s wc"
  "BikeSpeed_calculate_speed (s\<lparr>bs_distance := x\<rparr>) wc = BikeSpeed_calculate_speed s wc"
  by (simp_all add: BikeSpeed_calculate_speed_def)

lemma BikeSpeed_calculate_distance_upd [simp]:
  "BikeSpeed_calculate_distance (s\<lparr>bs_speed := x\<rparr>) wc = BikeSpeed_calculate_distance s wc"
  "BikeSpeed_calculate_distance (s\<lparr>bs_distance := x\<rparr>) wc = BikeSpeed_calculate_distance s wc"
  by (simp_all add: BikeSpeed_calculate_distance_def)

lemma BikeCadence_calculate_cadence_upd [simp]:
  "BikeCadence_calculate_cadence (s\<lparr>bc_cadence := x\<rparr>) = BikeCadence_calculate_cadence s"
  by (simp add: BikeCadence_calculate_cadence_def)

lemma SpeedCadence_calculate_speed_upd [simp]:
  "SpeedCadence_calculate_speed (s\<lparr>sc_speed := x\<rparr>) wc = SpeedCadence_calculate_speed s wc"
  "SpeedCadence_calculate_speed (s\<lparr>sc_distance := x\<rparr>) wc = SpeedCadence_calculate_speed s wc"
  "SpeedCadence_calculate_speed (s\<lparr>sc_cadence := x\<rparr>) wc = SpeedCadence_calculate_speed s wc"
  by (simp_all add: SpeedCadence_calculate_speed_def)

lemma SpeedCadence_calculate_distance_upd [simp]:
  "SpeedCadence_calculate_distance (s\<lparr>sc_speed := x\<rparr>) wc
     = SpeedCadence_calculate_distance s wc"
  "SpeedCadence_calculate_distance (s\<lparr>sc_distance := x\<rparr>) wc
     = SpeedCadence_calculate_distance s wc"
  "SpeedCadence_calculate_distance (s\<lparr>sc_cadence := x\<rparr>) wc
     = SpeedCadence_calculate_distance s wc"
  by (simp_all add: SpeedCadence_calculate_distance_def)

lemma SpeedCadence_calculate_cadence_upd [simp]:
  "SpeedCadence_calculate_cadence (s\<lparr>sc_speed := x\<rparr>) = SpeedCadence_calculate_cadence s"
  "SpeedCadence_calculate_cadence (s\<lparr>sc_distance := x\<rparr>) = SpeedCadence_calculate_cadence s"
  "SpeedCadence_calculate_cadence (s\<lparr>sc_cadence := x\<rparr>) = SpeedCadence_calculate_cadence s"
  by (simp_all add: SpeedCadence_calculate_cadence_def)

lemma BikeSpeed_calculate_speed_no_time:
  "bs_delta_event_time s \<le> 0 \<Longrightarrow> BikeSpeed_calculate_speed s wc = None"
  by (simp add: BikeSpeed_calculate_speed_def)

lemma BikeCadence_calculate_cadence_no_time:
  "bc_delta_event_time s \<le> 0 \<Longrightarrow> BikeCadence_calculate_cadence s = None"
  by (simp add: BikeCadence_calculate_cadence_def)

lemma SpeedCadence_calculate_speed_no_time:
  "sc_speed_delta_event_time s \<le> 0 \<Longrightarrow> SpeedCadence_calculate_speed s wc = None"
  by (simp add: SpeedCadence_calculate_speed_def)

lemma SpeedCadence_calculate_cadence_no_time:
  "sc_cadence_delta_event_time s \<le> 0 \<Longrightarrow> SpeedCadence_calculate_cadence s = None"
  by (simp add: SpeedCadence_calculate_cadence_def)

text \<open>
  One call of \<open>processData\<close> on a non-empty buffer, field by field: the new sample is
  appended to each deque, the results are those of the calculations on the new deques, and
  the toggle fields follow the tracking block.
\<close>

lemma BikeSpeed_processData_step:
  "\<exists>s'. BikeSpeed_processData s (b0 # rest)
          = Inr (s', if ''onSpeedData'' \<in> bs_callbacks s
                     then [OnSpeedData (bs_speed s') (bs_distance s')] else [])
      \<and> bs_bike_speed_event_time s'
          = Deque2 (newer (bs_bike_speed_event_time s))
              (from_bytes_little (slice 4 6 (b0 # rest)))
      \<and> bs_cumulative_speed_revolution s'
          = Deque2 (newer (bs_cumulative_speed_revolution s))
              (from_bytes_little (slice 6 8 (b0 # rest)))
      \<and> bs_speed s' = BikeSpeed_calculate_speed s' (bs_wheel_circumference s)
      \<and> bs_distance s' = BikeSpeed_calculate_distance s' (bs_wheel_circumference s)
      \<and> bs_wheel_circumference s' = bs_wheel_circumference s
      \<and> bs_callbacks s' = bs_callbacks s
      \<and> bs_page_toggle s'
          = (if \<not> bs_page_toggle_observed s \<and> bs_page_toggle s = None
             then Some (drop_bit 7 (uint b0)) else bs_page_toggle s)
      \<and> bs_page_toggle_observed s'
          = (bs_page_toggle_observed s
             \<or> (bs_page_toggle s \<noteq> None \<and> bs_page_toggle s \<noteq> Some (drop_bit 7 (uint b0))))"
proof -
  consider (obs) "bs_page_toggle_observed s"
    | (first) "\<not> bs_page_toggle_observed s" "bs_page_toggle s = None"
    | (same) "\<not> bs_page_toggle_observed s" "bs_page_toggle s = Some (drop_bit 7 (uint b0))"
    | (diff) t where "\<not> bs_page_toggle_observed s" "bs_page_toggle s = Some t"
        "t \<noteq> drop_bit 7 (uint b0)"
    by (cases "bs_page_toggle s") auto
  then show ?thesis
    by cases (simp_all add: BikeSpeed_processData_def Let_def append_deque_eq)
qed

lemma BikeCadence_processData_step:
  "\<exists>s'. BikeCadence_processData s (b0 # rest)
          = Inr (s', if ''onCadenceData'' \<in> bc_callbacks s
                     then [OnCadenceData (bc_cadence s')] else [])
      \<and> bc_bike_cadence_event_time s'
          = Deque2 (newer (bc_bike_cadence_event_time s))
              (from_bytes_little (slice 4 6 (b0 # rest)))
      \<and> bc_cumulative_cadence_revolution s'
          = Deque2 (newer (bc_cumulative_cadence_revolution s))
              (from_bytes_little (slice 6 8 (b0 # rest)))
      \<and> bc_cadence s' = BikeCadence_calculate_cadence s'
      \<and> bc_callbacks s' = bc_callbacks s
      \<and> bc_page_toggle s'
          = (if \<not> bc_page_toggle_observed s \<and> bc_page_toggle s = None
             then Some (drop_bit 7 (uint b0)) else bc_page_toggle s)
      \<and> bc_page_toggle_observed s'
          = (bc_page_toggle_observed s
             \<or> (bc_page_toggle s \<noteq> None \<and> bc_page_toggle s \<noteq> Some (drop_bit 7 (uint b0))))"
proof -
  consider (obs) "bc_page_toggle_observed s"
    | (first) "\<not> bc_page_toggle_observed s" "bc_page_toggle s = None"
    | (same) "\<not> bc_page_toggle_observed s" "bc_page_toggle s = Some (drop_bit 7 (uint b0))"
    | (diff) t where "\<not> bc_page_toggle_observed s" "bc_page_toggle s = Some t"
        "t \<noteq> drop_bit 7 (uint b0)"
    by (cases "bc_page_toggle s") auto
  then show ?thesis
    by cases (simp_all add: BikeCadence_processData_def Let_def append_deque_eq)
qed

lemma SpeedCadence_processData_accept:
  "uint b0 AND 0x0F \<le> 5 \<Longrightarrow>
   \<exists>s'. SpeedCadence_processData s (b0 # rest)
          = Inr (s', (if ''onSpeedData'' \<in> sc_callbacks s
                      then [OnSpeedData (sc_speed s') (sc_distance s')] else [])
                     @ (if ''onCadenceData'' \<in> sc_callbacks s
                        then [OnCadenceData (sc_cadence s')] else []))
      \<and> sc_bike_cadence_event_time s'
          = Deque2 (newer (sc_bike_cadence_event_time s))
              (from_bytes_little (slice 0 2 (b0 # rest)))
      \<and> sc_cumulative_cadence_revolution s'
          = Deque2 (newer (sc_cumulative_cadence_revolution s))
              (from_bytes_little (slice 2 4 (b0 # rest)))
      \<and> sc_bike_speed_event_time s'
          = Deque2 (newer (sc_bike_speed_event_time s))
              (from_bytes_little (slice 4 6 (b0 # rest)))
      \<and> sc_cumulative_speed_revolution s'
          = Deque2 (newer (sc_cumulative_speed_revolution s))
              (from_bytes_little (slice 6 8 (b0 # rest)))
      \<and> sc_speed s' = SpeedCadence_calculate_speed s' (sc_wheel_circumference s)
      \<and> sc_distance s' = SpeedCadence_calculate_distance s' (sc_wheel_circumference s)
      \<and> sc_cadence s' = SpeedCadence_calculate_cadence s'
      \<and> sc_wheel_circumference s' = sc_wheel_circumference s
      \<and> sc_callbacks s' = sc_callbacks s"
  by (simp add: SpeedCadence_processData_def Let_def append_deque_eq)

lemma SpeedCadence_processData_ignore:
  "5 < uint b0 AND 0x0F \<Longrightarrow> SpeedCadence_processData s (b0 # rest) = Inr (s, [])"
  by (simp add: SpeedCadence_processData_def)

text \<open>Runs of \<open>processData\<close>: the toggle flag along a sequence of pages.\<close>

lemma BikeSpeed_processAll_latched:
  "bs_page_toggle_observed s \<Longrightarrow> \<forall>d \<in> set ds. d \<noteq> [] \<Longrightarrow>
   \<exists>s'. BikeSpeed_processAll s ds = Inr s' \<and> bs_page_toggle_observed s'"
proof (induction ds arbitrary: s)
  case Nil
  then show ?case by simp
next
  case (Cons d ds)
  then obtain b0 rest where d: "d = b0 # rest"
    by (cases d) auto
  obtain s1 c1 where s1: "BikeSpeed_processData s d = Inr (s1, c1)"
    "bs_page_toggle_observed s1"
    using BikeSpeed_processData_step [of s b0 rest] Cons.prems(1) d by auto
  from Cons.IH [OF s1(2)] Cons.prems(2) s1(1) show ?case
    by simp
qed

lemma BikeSpeed_processAll_toggle:
  "bs_page_toggle s = Some t \<Longrightarrow> \<forall>d \<in> set ds. d \<noteq> [] \<Longrightarrow>
   \<exists>s'. BikeSpeed_processAll s ds = Inr s'
     \<and> bs_page_toggle_observed s'
         = (bs_page_toggle_observed s \<or> (\<exists>d \<in> set ds. toggle_bit d \<noteq> Some t))"
proof (induction ds arbitrary: s)
  case Nil
  then show ?case by simp
next
  case (Cons d ds)
  then obtain b0 rest where d: "d = b0 # rest"
    by (cases d) auto
  obtain s1 c1 where s1: "BikeSpeed_processData s d = Inr (s1, c1)"
    "bs_page_toggle s1 = Some t"
    "bs_page_toggle_observed s1 = (bs_page_toggle_observed s \<or> toggle_bit d \<noteq> Some t)"
    using BikeSpeed_processData_step [of s b0 rest] Cons.prems(1) d by auto
  from Cons.IH [OF s1(2)] Cons.prems(2) s1(1,3) show ?case
    by auto
qed

lemma BikeSpeed_processAll_init:
  assumes "\<forall>d \<in> set (p # ps). d \<noteq> []"
  shows "\<exists>s. BikeSpeed_processAll (BikeSpeed_init wc cbs) (p # ps) = Inr s
     \<and> bs_page_toggle_observed s = (\<exists>d \<in> set ps. toggle_bit d \<noteq> toggle_bit p)"
proof -
  from assms obtain b0 rest where p: "p = b0 # rest"
    by (cases p) auto
  obtain s1 c1 where s1: "BikeSpeed_processData (BikeSpeed_init wc cbs) p = Inr (s1, c1)"
    "bs_page_toggle s1 = toggle_bit p" "\<not> bs_page_toggle_observed s1"
    using BikeSpeed_processData_step [of "BikeSpeed_init wc cbs" b0 rest] p
    by (auto simp: BikeSpeed_init_def)
  from s1(2) p have "bs_page_toggle s1 = Some (drop_bit 7 (uint b0))"
    by simp
  from BikeSpeed_processAll_toggle [OF this, of ps] assms s1 p show ?thesis
    by auto
qed

lemma BikeCadence_processAll_latched:
  "bc_page_toggle_observed s \<Longrightarrow> \<forall>d \<in> set ds. d \<noteq> [] \<Longrightarrow>
   \<exists>s'. BikeCadence_processAll s ds = Inr s' \<and> bc_page_toggle_observed s'"
proof (induction ds arbitrary: s)
  case Nil
  then show ?case by simp
next
  case (Cons d ds)
  then obtain b0 rest where d: "d = b0 # rest"
    by (cases d) auto
  obtain s1 c1 where s1: "BikeCadence_processData s d = Inr (s1, c1)"
    "bc_page_toggle_observed s1"
    using BikeCadence_processData_step [of s b0 rest] Cons.prems(1) d by auto
  from Cons.IH [OF s1(2)] Cons.prems(2) s1(1) show ?case
    by simp
qed

lemma BikeCadence_processAll_toggle:
  "bc_page_toggle s = Some t \<Longrightarrow> \<forall>d \<in> set ds. d \<noteq> [] \<Longrightarrow>
   \<exists>s'. BikeCadence_processAll s ds = Inr s'
     \<and> bc_page_toggle_observed s'
         = (bc_page_toggle_observed s \<or> (\<exists>d \<in> set ds. toggle_bit d \<noteq> Some t))"
proof (induction ds arbitrary: s)
  case Nil
  then show ?case by simp
next
  case (Cons d ds)
  then obtain b0 rest where d: "d = b0 # rest"
    by (cases d) auto
  obtain s1 c1 where s1: "BikeCadence_processData s d = Inr (s1, c1)"
    "bc_page_toggle s1 = Some t"
    "bc_page_toggle_observed s1 = (bc_page_toggle_observed s \<or> toggle_bit d \<noteq> Some t)"
    using BikeCadence_processData_step [of s b0 rest] Cons.prems(1) d by auto
  from Cons.IH [OF s1(2)] Cons.prems(2) s1(1,3) show ?case
    by auto
qed

lemma BikeCadence_processAll_init:
  assumes "\<forall>d \<in> set (p # ps). d \<noteq> []"
  shows "\<exists>s. BikeCadence_processAll (BikeCadence_init cbs) (p # ps) = Inr s
     \<and> bc_page_toggle_observed s = (\<exists>d \<in> set ps. toggle_bit d \<noteq> toggle_bit p)"
proof -
  from assms obtain b0 rest where p: "p = b0 # rest"
    by (cases p) auto
  obtain s1 c1 where s1: "BikeCadence_processData (BikeCadence_init cbs) p = Inr (s1, c1)"
    "bc_page_toggle s1 = toggle_bit p" "\<not> bc_page_toggle_observed s1"
    using BikeCadence_processData_step [of "BikeCadence_init cbs" b0 rest] p
    by (auto simp: BikeCadence_init_def)
  from s1(2) p have "bc_page_toggle s1 = Some (drop_bit 7 (uint b0))"
    by simp
  from BikeCadence_processAll_toggle [OF this, of ps] assms s1 p show ?thesis
    by auto
qed

text \<open>Three pages on a fresh \<open>BikeSpeed\<close>, for any wheel circumference.\<close>

lemma BikeSpeed_three_pages:
  "\<exists>s1 s2 s3.
     BikeSpeed_processData (BikeSpeed_init wc cbs) [a0, a1, a2, a3, 0, 0, 0, 0]
       = Inr (s1, if ''onSpeedData'' \<in> cbs then [OnSpeedData None None] else [])
   \<and> bs_speed s1 = None \<and> bs_distance s1 = None
   \<and> BikeSpeed_processData s1 [b0, b1, b2, b3, 0, 4, 1, 0]
       = Inr (s2, if ''onSpeedData'' \<in> cbs then [OnSpeedData None None] else [])
   \<and> bs_speed s2 = None \<and> bs_distance s2 = None
   \<and> BikeSpeed_processData s2 [c0, c1, c2, c3, 0, 8, 2, 0]
       = Inr (s3, if ''onSpeedData'' \<in> cbs
                  then [OnSpeedData (Some (wc * 1 * 1024 / 1024 * 3.6)) (Some (wc * 1))]
                  else [])
   \<and> bs_delta_event_time s3 = 1024 \<and> bs_delta_rev_count s3 = 1
   \<and> bs_speed s3 = Some (wc * 1 * 1024 / 1024 * 3.6)
   \<and> bs_distance s3 = Some (wc * 1)"
proof -
  let ?s0 = "BikeSpeed_init wc cbs"
  have init: "bs_bike_speed_event_time ?s0 = Deque2 0 0"
    "bs_cumulative_speed_revolution ?s0 = Deque2 0 0"
    "bs_wheel_circumference ?s0 = wc" "bs_callbacks ?s0 = cbs"
    by (simp_all add: BikeSpeed_init_def)
  obtain s1 where s1:
    "BikeSpeed_processData ?s0 [a0, a1, a2, a3, 0, 0, 0, 0]
       = Inr (s1, if ''onSpeedData'' \<in> cbs
                  then [OnSpeedData (bs_speed s1) (bs_distance s1)] else [])"
    "bs_bike_speed_event_time s1 = Deque2 0 0"
    "bs_cumulative_speed_revolution s1 = Deque2 0 0"
    "bs_speed s1 = BikeSpeed_calculate_speed s1 wc"
    "bs_distance s1 = BikeSpeed_calculate_distance s1 wc"
    "bs_wheel_circumference s1 = wc" "bs_callbacks s1 = cbs"
    using BikeSpeed_processData_step [of ?s0 a0 "[a1, a2, a3, 0, 0, 0, 0]"]
    by (auto simp: init slice_page)
  have v1: "bs_speed s1 = None" "bs_distance s1 = None"
    using s1 by (simp_all add: BikeSpeed_calculate_speed_def BikeSpeed_calculate_distance_def)
  obtain s2 where s2:
    "BikeSpeed_processData s1 [b0, b1, b2, b3, 0, 4, 1, 0]
       = Inr (s2, if ''onSpeedData'' \<in> cbs
                  then [OnSpeedData (bs_speed s2) (bs_distance s2)] else [])"
    "bs_bike_speed_event_time s2 = Deque2 0 1024"
    "bs_cumulative_speed_revolution s2 = Deque2 0 1"
    "bs_speed s2 = BikeSpeed_calculate_speed s2 wc"
    "bs_distance s2 = BikeSpeed_calculate_distance s2 wc"
    "bs_wheel_circumference s2 = wc" "bs_callbacks s2 = cbs"
    using BikeSpeed_processData_step [of s1 b0 "[b1, b2, b3, 0, 4, 1, 0]"]
    by (auto simp: s1 slice_page)
  have v2: "bs_speed s2 = None" "bs_distance s2 = None"
    using s2 by (simp_all add: BikeSpeed_calculate_speed_def BikeSpeed_calculate_distance_def)
  obtain s3 where s3:
    "BikeSpeed_processData s2 [c0, c1, c2, c3, 0, 8, 2, 0]
       = Inr (s3, if ''onSpeedData'' \<in> cbs
                  then [OnSpeedData (bs_speed s3) (bs_distance s3)] else [])"
    "bs_bike_speed_event_time s3 = Deque2 1024 2048"
    "bs_cumulative_speed_revolution s3 = Deque2 1 2"
    "bs_speed s3 = BikeSpeed_calculate_speed s3 wc"
    "bs_distance s3 = BikeSpeed_calculate_distance s3 wc"
    using BikeSpeed_processData_step [of s2 c0 "[c1, c2, c3, 0, 8, 2, 0]"]
    by (auto simp: s2 slice_page)
  have d3: "bs_delta_event_time s3 = 1024" "bs_delta_rev_count s3 = 1"
    using s3 by (simp_all add: wrapDifference_def)
  have v3: "bs_speed s3 = Some (wc * 1 * 1024 / 1024 * 3.6)" "bs_distance s3 = Some (wc * 1)"
    using s3 d3 by (simp_all add: BikeSpeed_calculate_speed_def BikeSpeed_calculate_distance_def)
  show ?thesis
    using s1(1) s2(1) s3(1) v1 v2 v3 d3 by (intro exI [of _ s1] exI [of _ s2] exI [of _ s3]) simp
qed

subsection \<open>Wraparound difference\<close>

text \<open>
  Claim C1. For all 16-bit unsigned integers \<open>old\<close> and \<open>new\<close>,
  \<open>wrapDifference(new, old, 65536)\<close> equals \<open>(new - old + 65536) % 65536\<close>, which lies in
  \<open>[0, 65536)\<close> (and is the unsigned value of the 16-bit subtraction); in particular
  \<open>wrapDifference(5, 65530, 65536) = 11\<close>.
\<close>

theorem wrapDifference_u16:
  fixes new old :: "16 word"
  shows "wrapDifference (uint new) (uint old) 65536 = (uint new - uint old + 65536) mod 65536
       \<and> 0 \<le> wrapDifference (uint new) (uint old) 65536
       \<and> wrapDifference (uint new) (uint old) 65536 < 65536
       \<and> wrapDifference (uint new) (uint old) 65536 = uint (new - old)
       \<and> wrapDifference 5 65530 65536 = 11"
  by (simp add: wrapDifference_def uint_word_ariths)

subsection \<open>Speed\<close>

text \<open>
  Claim C2. In every state whose older revolution count and older event time are both
  nonzero and whose wraparound difference of event time is positive, \<open>calculate_speed\<close>
  returns \<open>wheel_circumference * delta_revolutions * 1024 / delta_time * 3.6\<close>; it returns
  \<open>None\<close> whenever the difference of event time is not positive or an older slot holds 0.
  Both \<open>BikeSpeed.calculate_speed\<close> and \<open>SpeedCadence.calculate_speed\<close>.
\<close>

theorem calculate_speed_formula:
  "(older (bs_cumulative_speed_revolution s) \<noteq> 0
      \<and> older (bs_bike_speed_event_time s) \<noteq> 0
      \<and> 0 < bs_delta_event_time s
    \<longrightarrow> BikeSpeed_calculate_speed s wc
          = Some (wc * of_int (bs_delta_rev_count s) * 1024 / of_int (bs_delta_event_time s) * 3.6))
 \<and> (bs_delta_event_time s \<le> 0
      \<or> older (bs_cumulative_speed_revolution s) = 0
      \<or> older (bs_bike_speed_event_time s) = 0
    \<longrightarrow> BikeSpeed_calculate_speed s wc = None)
 \<and> (older (sc_cumulative_speed_revolution c) \<noteq> 0
      \<and> older (sc_bike_speed_event_time c) \<noteq> 0
      \<and> 0 < sc_speed_delta_event_time c
    \<longrightarrow> SpeedCadence_calculate_speed c wc
          = Some (wc * of_int (sc_speed_delta_rev_count c) * 1024
                  / of_int (sc_speed_delta_event_time c) * 3.6))
 \<and> (sc_speed_delta_event_time c \<le> 0
      \<or> older (sc_cumulative_speed_revolution c) = 0
      \<or> older (sc_bike_speed_event_time c) = 0
    \<longrightarrow> SpeedCadence_calculate_speed c wc = None)"
  by (simp add: BikeSpeed_calculate_speed_def SpeedCadence_calculate_speed_def Let_def)

text \<open>
  The formula at states that satisfy the hypotheses (one second and one revolution
  between the samples; a wrap of both counters), and \<open>None\<close> for a duplicate sample and
  for an older event time of 0.
\<close>

theorem calculate_speed_formula_witness:
  "BikeSpeed_calculate_speed (bs_state (Deque2 1024 2048) (Deque2 1 2)) 2.105 = Some 7.578
 \<and> BikeSpeed_calculate_speed (bs_state (Deque2 1024 1024) (Deque2 1 1)) 2.105 = None
 \<and> SpeedCadence_calculate_speed
      (sc_state (Deque2 0 0) (Deque2 0 0) (Deque2 65024 512) (Deque2 65535 1)) 2.105
    = Some 15.156
 \<and> SpeedCadence_calculate_speed
      (sc_state (Deque2 0 0) (Deque2 0 0) (Deque2 0 1024) (Deque2 7 8)) 2.105 = None"
  using
    calculate_speed_formula
      [of "bs_state (Deque2 1024 2048) (Deque2 1 2)" "2.105"
          "sc_state (Deque2 0 0) (Deque2 0 0) (Deque2 65024 512) (Deque2 65535 1)"]
    calculate_speed_formula
      [of "bs_state (Deque2 1024 1024) (Deque2 1 1)" "2.105"
          "sc_state (Deque2 0 0) (Deque2 0 0) (Deque2 0 1024) (Deque2 7 8)"]
  by (simp add: ex_defs wrapDifference_def)

subsection \<open>Cadence\<close>

text \<open>
  Claim C3. In every state whose older cadence revolution count and older cadence event time
  are both nonzero and whose wraparound difference of event time is positive,
  \<open>calculate_cadence\<close> returns \<open>60 * delta_revolutions * 1024 / delta_time\<close>, and \<open>None\<close>
  otherwise; a difference of 512 ticks with one revolution gives 120 RPM. Both
  \<open>BikeCadence.calculate_cadence\<close> and \<open>SpeedCadence.calculate_cadence\<close>.
\<close>

theorem calculate_cadence_formula:
  "(older (bc_cumulative_cadence_revolution s) \<noteq> 0
      \<and> older (bc_bike_cadence_event_time s) \<noteq> 0
      \<and> 0 < bc_delta_event_time s
    \<longrightarrow> BikeCadence_calculate_cadence s
          = Some (60 * of_int (bc_delta_rev_count s) * 1024 / of_int (bc_delta_event_time s)))
 \<and> (\<not> (older (bc_cumulative_cadence_revolution s) \<noteq> 0
         \<and> older (bc_bike_cadence_event_time s) \<noteq> 0
         \<and> 0 < bc_delta_event_time s)
    \<longrightarrow> BikeCadence_calculate_cadence s = None)
 \<and> (older (bc_cumulative_cadence_revolution s) \<noteq> 0
      \<and> older (bc_bike_cadence_event_time s) \<noteq> 0
      \<and> bc_delta_event_time s = 512 \<and> bc_delta_rev_count s = 1
    \<longrightarrow> BikeCadence_calculate_cadence s = Some 120)
 \<and> (older (sc_cumulative_cadence_revolution c) \<noteq> 0
      \<and> older (sc_bike_cadence_event_time c) \<noteq> 0
      \<and> 0 < sc_cadence_delta_event_time c
    \<longrightarrow> SpeedCadence_calculate_cadence c
          = Some (60 * of_int (sc_cadence_delta_rev_count c) * 1024
                  / of_int (sc_cadence_delta_event_time c)))
 \<and> (\<not> (older (sc_cumulative_cadence_revolution c) \<noteq> 0
         \<and> older (sc_bike_cadence_event_time c) \<noteq> 0
         \<and> 0 < sc_cadence_delta_event_time c)
    \<longrightarrow> SpeedCadence_calculate_cadence c = None)
 \<and> (older (sc_cumulative_cadence_revolution c) \<noteq> 0
      \<and> older (sc_bike_cadence_event_time c) \<noteq> 0
      \<and> sc_cadence_delta_event_time c = 512 \<and> sc_cadence_delta_rev_count c = 1
    \<longrightarrow> SpeedCadence_calculate_cadence c = Some 120)"
  by (simp add: BikeCadence_calculate_cadence_def SpeedCadence_calculate_cadence_def Let_def)

text \<open>
  120 RPM at states with a difference of 512 ticks and one revolution (the second one across
  a wrap of both counters), and \<open>None\<close> for an older event time of 0 and for a duplicate
  sample.
\<close>

theorem calculate_cadence_formula_witness:
  "BikeCadence_calculate_cadence (bc_state (Deque2 1000 1512) (Deque2 41 42)) = Some 120
 \<and> BikeCadence_calculate_cadence (bc_state (Deque2 0 512) (Deque2 41 42)) = None
 \<and> SpeedCadence_calculate_cadence
      (sc_state (Deque2 65280 256) (Deque2 65535 0) (Deque2 0 0) (Deque2 0 0)) = Some 120
 \<and> SpeedCadence_calculate_cadence
      (sc_state (Deque2 700 700) (Deque2 9 9) (Deque2 0 0) (Deque2 0 0)) = None"
  using
    calculate_cadence_formula
      [of "bc_state (Deque2 1000 1512) (Deque2 41 42)"
          "sc_state (Deque2 65280 256) (Deque2 65535 0) (Deque2 0 0) (Deque2 0 0)"]
    calculate_cadence_formula
      [of "bc_state (Deque2 0 512) (Deque2 41 42)"
          "sc_state (Deque2 700 700) (Deque2 9 9) (Deque2 0 0) (Deque2 0 0)"]
  by (simp add: ex_defs wrapDifference_def)

subsection \<open>The sentinel 0\<close>

text \<open>
  Claim C4, as amended. The calculations test the older slot only, and each tests the
  counters it guards: where the older revolution count is 0, speed and distance are \<open>None\<close>;
  where the older event time is 0, speed is \<open>None\<close>; where the older cadence revolution
  count or the older cadence event time is 0, cadence is \<open>None\<close>. The newer slot is not
  tested, and distance does not depend on the event time.
\<close>

theorem sentinel_older_slot_absent:
  "(older (bs_cumulative_speed_revolution s) = 0
      \<longrightarrow> BikeSpeed_calculate_speed s wc = None \<and> BikeSpeed_calculate_distance s wc = None)
 \<and> (older (bs_bike_speed_event_time s) = 0 \<longrightarrow> BikeSpeed_calculate_speed s wc = None)
 \<and> (older (bc_cumulative_cadence_revolution b) = 0 \<or> older (bc_bike_cadence_event_time b) = 0
      \<longrightarrow> BikeCadence_calculate_cadence b = None)
 \<and> (older (sc_cumulative_speed_revolution c) = 0
      \<longrightarrow> SpeedCadence_calculate_speed c wc = None
        \<and> SpeedCadence_calculate_distance c wc = None)
 \<and> (older (sc_bike_speed_event_time c) = 0 \<longrightarrow> SpeedCadence_calculate_speed c wc = None)
 \<and> (older (sc_cumulative_cadence_revolution c) = 0 \<or> older (sc_bike_cadence_event_time c) = 0
      \<longrightarrow> SpeedCadence_calculate_cadence c = None)"
  by (simp add: BikeSpeed_calculate_speed_def BikeSpeed_calculate_distance_def
      BikeCadence_calculate_cadence_def SpeedCadence_calculate_speed_def
      SpeedCadence_calculate_distance_def SpeedCadence_calculate_cadence_def)

text \<open>
  States with an older slot of 0: speed, distance and cadence are \<open>None\<close>.
\<close>

theorem sentinel_older_slot_absent_witness:
  "BikeSpeed_calculate_speed (bs_state (Deque2 1024 2048) (Deque2 0 1)) 2.105 = None
 \<and> BikeSpeed_calculate_distance (bs_state (Deque2 1024 2048) (Deque2 0 1)) 2.105 = None
 \<and> BikeCadence_calculate_cadence (bc_state (Deque2 0 512) (Deque2 41 42)) = None
 \<and> SpeedCadence_calculate_speed
      (sc_state (Deque2 0 512) (Deque2 0 1) (Deque2 0 1024) (Deque2 0 1)) 2.105 = None
 \<and> SpeedCadence_calculate_distance
      (sc_state (Deque2 0 512) (Deque2 0 1) (Deque2 0 1024) (Deque2 0 1)) 2.105 = None
 \<and> SpeedCadence_calculate_cadence
      (sc_state (Deque2 0 512) (Deque2 0 1) (Deque2 0 1024) (Deque2 0 1)) = None"
  using sentinel_older_slot_absent
    [of "bs_state (Deque2 1024 2048) (Deque2 0 1)" "2.105"
        "bc_state (Deque2 0 512) (Deque2 41 42)"
        "sc_state (Deque2 0 512) (Deque2 0 1) (Deque2 0 1024) (Deque2 0 1)"]
  by (simp add: ex_defs)

text \<open>
  Claim C4 as stated fails: it asks for \<open>None\<close> also where the newer slot holds 0, and for
  an absent distance where an event time is 0. A \<open>BikeSpeed\<close> that has processed a page
  carrying (event time 1024, revolutions 1) and then a page carrying (0, 0) holds 0 in both
  newer slots, and reports a speed and a distance computed across the wrap; likewise the
  cadence of such a state; and with an older event time of 0 and an older revolution count
  of 7 the distance is a number.
\<close>

theorem sentinel_either_slot_counterexample:
  "BikeSpeed_processAll (BikeSpeed_init 2.105 {''onSpeedData''})
     [[0, 0, 0, 0, 0, 4, 1, 0], [0, 0, 0, 0, 0, 0, 0, 0]]
     = Inr ((bs_state (Deque2 1024 0) (Deque2 1 0))
              \<lparr> bs_speed := Some (2.105 * 65535 * 1024 / 64512 * 3.6),
                bs_distance := Some (2.105 * 65535),
                bs_page_toggle := Some 0 \<rparr>)
 \<and> newer (bs_bike_speed_event_time (bs_state (Deque2 1024 0) (Deque2 1 0))) = 0
 \<and> newer (bs_cumulative_speed_revolution (bs_state (Deque2 1024 0) (Deque2 1 0))) = 0
 \<and> BikeSpeed_calculate_speed (bs_state (Deque2 1024 0) (Deque2 1 0)) 2.105
     = Some (2.105 * 65535 * 1024 / 64512 * 3.6)
 \<and> BikeSpeed_calculate_distance (bs_state (Deque2 1024 0) (Deque2 1 0)) 2.105
     = Some (2.105 * 65535)
 \<and> newer (bc_bike_cadence_event_time (bc_state (Deque2 1024 0) (Deque2 1 0))) = 0
 \<and> newer (bc_cumulative_cadence_revolution (bc_state (Deque2 1024 0) (Deque2 1 0))) = 0
 \<and> BikeCadence_calculate_cadence (bc_state (Deque2 1024 0) (Deque2 1 0))
     = Some (60 * 65535 * 1024 / 64512)
 \<and> older (bs_bike_speed_event_time (bs_state (Deque2 0 1024) (Deque2 7 8))) = 0
 \<and> BikeSpeed_calculate_distance (bs_state (Deque2 0 1024) (Deque2 7 8)) 2.105 = Some 2.105"
  by (simp add: ex_defs BikeSpeed_processData_def BikeSpeed_calculate_speed_def
      BikeSpeed_calculate_distance_def BikeCadence_calculate_cadence_def wrapDifference_def
      slice_def Let_def)

subsection \<open>The known-value scenario\<close>

text \<open>
  Claim C5 as stated fails. On a fresh \<open>BikeSpeed\<close> with wheel circumference 2.105 the first
  page, carrying (event time 0, revolutions 0), yields \<open>None\<close> for speed and distance, and so
  does the second page, carrying (1024, 1): the older slot then holds the first sample, whose
  revolution count 0 is the sentinel.
\<close>

theorem known_value_scenario_counterexample:
  "BikeSpeed_processData (BikeSpeed_init 2.105 {''onSpeedData''}) [0, 0, 0, 0, 0, 0, 0, 0]
     = Inr ((bs_state (Deque2 0 0) (Deque2 0 0))
              \<lparr> bs_speed := None, bs_distance := None, bs_page_toggle := Some 0 \<rparr>,
            [OnSpeedData None None])
 \<and> BikeSpeed_processData
      ((bs_state (Deque2 0 0) (Deque2 0 0))
         \<lparr> bs_speed := None, bs_distance := None, bs_page_toggle := Some 0 \<rparr>)
      [0, 0, 0, 0, 0, 4, 1, 0]
     = Inr ((bs_state (Deque2 0 1024) (Deque2 0 1))
              \<lparr> bs_speed := None, bs_distance := None, bs_page_toggle := Some 0 \<rparr>,
            [OnSpeedData None None])"
  by (simp add: ex_defs BikeSpeed_processData_def BikeSpeed_calculate_speed_def
      BikeSpeed_calculate_distance_def slice_def Let_def)

text \<open>
  Claim C5, as amended. With wheel circumference 2.105, a first page carrying (0, 0) and a
  second page carrying (1024, 1) both yield \<open>None\<close> for speed and distance; a third page
  carrying (2048, 2), one second and one revolution after the second, yields distance 2.105
  and speed \<open>2.105 * 1 * 1024 / 1024 * 3.6 = 7.578\<close>. The other bytes of the pages and the
  registered callbacks are arbitrary.
\<close>

theorem known_value_scenario:
  "\<exists>s1 s2 s3.
     BikeSpeed_processData (BikeSpeed_init 2.105 cbs) [a0, a1, a2, a3, 0, 0, 0, 0]
       = Inr (s1, if ''onSpeedData'' \<in> cbs then [OnSpeedData None None] else [])
   \<and> bs_speed s1 = None \<and> bs_distance s1 = None
   \<and> BikeSpeed_processData s1 [b0, b1, b2, b3, 0, 4, 1, 0]
       = Inr (s2, if ''onSpeedData'' \<in> cbs then [OnSpeedData None None] else [])
   \<and> bs_speed s2 = None \<and> bs_distance s2 = None
   \<and> BikeSpeed_processData s2 [c0, c1, c2, c3, 0, 8, 2, 0]
       = Inr (s3, if ''onSpeedData'' \<in> cbs
                  then [OnSpeedData (Some 7.578) (Some 2.105)] else [])
   \<and> bs_delta_event_time s3 = 1024 \<and> bs_delta_rev_count s3 = 1
   \<and> bs_speed s3 = Some 7.578
   \<and> bs_distance s3 = Some 2.105"
proof -
  have e: "(2.105::real) * 1 = 2.105" "(2.105::real) * 1024 / 1024 * 3.6 = 7.578"
    by simp_all
  show ?thesis
    using BikeSpeed_three_pages [of "2.105" cbs a0 a1 a2 a3 b0 b1 b2 b3 c0 c1 c2 c3]
    by (simp only: e)
qed

subsection \<open>First call and duplicate pages\<close>

text \<open>
  Claim C6. The first call of \<open>processData\<close> on a freshly constructed profile, with any
  non-empty buffer, stores and reports \<open>None\<close> for speed, distance and cadence: the older
  slot still holds the initial 0. \<open>SpeedCadence\<close> reports only on an accepted page (low nibble
  of byte 0 at most 5); on any other page it makes no call and stays as constructed.
\<close>

theorem first_call_absent:
  "(\<exists>s. BikeSpeed_processData (BikeSpeed_init wc cbs) (b0 # rest)
           = Inr (s, if ''onSpeedData'' \<in> cbs then [OnSpeedData None None] else [])
        \<and> bs_speed s = None \<and> bs_distance s = None)
 \<and> (\<exists>s. BikeCadence_processData (BikeCadence_init cbs) (b0 # rest)
           = Inr (s, if ''onCadenceData'' \<in> cbs then [OnCadenceData None] else [])
        \<and> bc_cadence s = None)
 \<and> (uint b0 AND 0x0F \<le> 5 \<longrightarrow>
      (\<exists>s. SpeedCadence_processData (SpeedCadence_init wc cbs) (b0 # rest)
           = Inr (s, (if ''onSpeedData'' \<in> cbs then [OnSpeedData None None] else [])
                     @ (if ''onCadenceData'' \<in> cbs then [OnCadenceData None] else []))
        \<and> sc_speed s = None \<and> sc_distance s = None \<and> sc_cadence s = None))
 \<and> (5 < uint b0 AND 0x0F \<longrightarrow>
      SpeedCadence_processData (SpeedCadence_init wc cbs) (b0 # rest)
        = Inr (SpeedCadence_init wc cbs, []))"
proof (intro conjI impI)
  obtain s where s:
    "BikeSpeed_processData (BikeSpeed_init wc cbs) (b0 # rest)
       = Inr (s, if ''onSpeedData'' \<in> cbs
                 then [OnSpeedData (bs_speed s) (bs_distance s)] else [])"
    "older (bs_bike_speed_event_time s) = 0"
    "older (bs_cumulative_speed_revolution s) = 0"
    "bs_speed s = BikeSpeed_calculate_speed s wc"
    "bs_distance s = BikeSpeed_calculate_distance s wc"
    using BikeSpeed_processData_step [of "BikeSpeed_init wc cbs" b0 rest]
    by (auto simp: BikeSpeed_init_def)
  have "bs_speed s = None" "bs_distance s = None"
    using s by (simp_all add: BikeSpeed_calculate_speed_def BikeSpeed_calculate_distance_def)
  with s(1) show "\<exists>s. BikeSpeed_processData (BikeSpeed_init wc cbs) (b0 # rest)
           = Inr (s, if ''onSpeedData'' \<in> cbs then [OnSpeedData None None] else [])
        \<and> bs_speed s = None \<and> bs_distance s = None"
    by auto
next
  obtain s where s:
    "BikeCadence_processData (BikeCadence_init cbs) (b0 # rest)
       = Inr (s, if ''onCadenceData'' \<in> cbs then [OnCadenceData (bc_cadence s)] else [])"
    "older (bc_cumulative_cadence_revolution s) = 0"
    "bc_cadence s = BikeCadence_calculate_cadence s"
    using BikeCadence_processData_step [of "BikeCadence_init cbs" b0 rest]
    by (auto simp: BikeCadence_init_def)
  have "bc_cadence s = None"
    using s by (simp add: BikeCadence_calculate_cadence_def)
  with s(1) show "\<exists>s. BikeCadence_processData (BikeCadence_init cbs) (b0 # rest)
           = Inr (s, if ''onCadenceData'' \<in> cbs then [OnCadenceData None] else [])
        \<and> bc_cadence s = None"
    by auto
next
  assume acc: "uint b0 AND 0x0F \<le> 5"
  obtain s where s:
    "SpeedCadence_processData (SpeedCadence_init wc cbs) (b0 # rest)
       = Inr (s, (if ''onSpeedData'' \<in> cbs
                  then [OnSpeedData (sc_speed s) (sc_distance s)] else [])
                 @ (if ''onCadenceData'' \<in> cbs then [OnCadenceData (sc_cadence s)] else []))"
    "older (sc_cumulative_speed_revolution s) = 0"
    "older (sc_cumulative_cadence_revolution s) = 0"
    "sc_speed s = SpeedCadence_calculate_speed s wc"
    "sc_distance s = SpeedCadence_calculate_distance s wc"
    "sc_cadence s = SpeedCadence_calculate_cadence s"
    using SpeedCadence_processData_accept [OF acc, of "SpeedCadence_init wc cbs" rest]
    by (auto simp: SpeedCadence_init_def)
  have "sc_speed s = None" "sc_distance s = None" "sc_cadence s = None"
    using s by (simp_all add: SpeedCadence_calculate_speed_def
        SpeedCadence_calculate_distance_def SpeedCadence_calculate_cadence_def)
  with s(1) show "\<exists>s. SpeedCadence_processData (SpeedCadence_init wc cbs) (b0 # rest)
           = Inr (s, (if ''onSpeedData'' \<in> cbs then [OnSpeedData None None] else [])
                     @ (if ''onCadenceData'' \<in> cbs then [OnCadenceData None] else []))
        \<and> sc_speed s = None \<and> sc_distance s = None \<and> sc_cadence s = None"
    by auto
next
  assume "5 < uint b0 AND 0x0F"
  then show "SpeedCadence_processData (SpeedCadence_init wc cbs) (b0 # rest)
        = Inr (SpeedCadence_init wc cbs, [])"
    by (rule SpeedCadence_processData_ignore)
qed

text \<open>
  First calls on concrete pages: the reported measurements, and an ignored page.
\<close>

theorem first_call_absent_witness:
  "map_sum id snd
     (BikeSpeed_processData (BikeSpeed_init 2.105 {''onSpeedData''}) [0, 0, 0, 0, 0, 4, 1, 0])
     = Inr [OnSpeedData None None]
 \<and> map_sum id snd
     (BikeCadence_processData (BikeCadence_init {''onCadenceData''}) [0, 0, 0, 0, 0, 4, 1, 0])
     = Inr [OnCadenceData None]
 \<and> uint (5 :: byte) AND 0x0F \<le> 5
 \<and> map_sum id snd
     (SpeedCadence_processData (SpeedCadence_init 2.105 {''onSpeedData'', ''onCadenceData''})
        [5, 4, 1, 0, 0, 4, 1, 0])
     = Inr [OnSpeedData None None, OnCadenceData None]
 \<and> 5 < uint (6 :: byte) AND 0x0F
 \<and> SpeedCadence_processData (SpeedCadence_init 2.105 {''onSpeedData'', ''onCadenceData''})
        [6, 4, 1, 0, 0, 4, 1, 0]
     = Inr (SpeedCadence_init 2.105 {''onSpeedData'', ''onCadenceData''}, [])"
  using
    first_call_absent [of "2.105" "{''onSpeedData''}" 0 "[0, 0, 0, 0, 4, 1, 0]"]
    first_call_absent [of "2.105" "{''onCadenceData''}" 0 "[0, 0, 0, 0, 4, 1, 0]"]
    first_call_absent [of "2.105" "{''onSpeedData'', ''onCadenceData''}" 5 "[4, 1, 0, 0, 4, 1, 0]"]
    first_call_absent [of "2.105" "{''onSpeedData'', ''onCadenceData''}" 6 "[4, 1, 0, 0, 4, 1, 0]"]
  by auto

text \<open>
  Claim C7, as amended. From any state of a \<open>BikeSpeed\<close> or \<open>BikeCadence\<close>, and from any
  state of a \<open>SpeedCadence\<close> with a page it accepts (low nibble of byte 0 at most 5),
  processing the same non-empty page twice in a row leaves a wraparound difference of event
  time of 0 after the second call, whose speed and cadence are \<open>None\<close>, stored and reported.
  A page that \<open>SpeedCadence\<close> ignores takes no sample and reports no measurement, on either
  call.
\<close>

theorem duplicate_page_absent:
  "(\<exists>s1 s2.
      BikeSpeed_processData s (b0 # rest)
        = Inr (s1, if ''onSpeedData'' \<in> bs_callbacks s
                   then [OnSpeedData (bs_speed s1) (bs_distance s1)] else [])
    \<and> BikeSpeed_processData s1 (b0 # rest)
        = Inr (s2, if ''onSpeedData'' \<in> bs_callbacks s
                   then [OnSpeedData None (bs_distance s2)] else [])
    \<and> bs_delta_event_time s2 = 0 \<and> bs_speed s2 = None)
 \<and> (\<exists>s1 s2.
      BikeCadence_processData b (b0 # rest)
        = Inr (s1, if ''onCadenceData'' \<in> bc_callbacks b
                   then [OnCadenceData (bc_cadence s1)] else [])
    \<and> BikeCadence_processData s1 (b0 # rest)
        = Inr (s2, if ''onCadenceData'' \<in> bc_callbacks b then [OnCadenceData None] else [])
    \<and> bc_delta_event_time s2 = 0 \<and> bc_cadence s2 = None)
 \<and> (uint b0 AND 0x0F \<le> 5 \<longrightarrow>
      (\<exists>s1 s2.
         SpeedCadence_processData c (b0 # rest)
           = Inr (s1, (if ''onSpeedData'' \<in> sc_callbacks c
                       then [OnSpeedData (sc_speed s1) (sc_distance s1)] else [])
                      @ (if ''onCadenceData'' \<in> sc_callbacks c
                         then [OnCadenceData (sc_cadence s1)] else []))
       \<and> SpeedCadence_processData s1 (b0 # rest)
           = Inr (s2, (if ''onSpeedData'' \<in> sc_callbacks c
                       then [OnSpeedData None (sc_distance s2)] else [])
                      @ (if ''onCadenceData'' \<in> sc_callbacks c
                         then [OnCadenceData None] else []))
       \<and> sc_speed_delta_event_time s2 = 0 \<and> sc_cadence_delta_event_time s2 = 0
       \<and> sc_speed s2 = None \<and> sc_cadence s2 = None))
 \<and> (5 < uint b0 AND 0x0F \<longrightarrow>
      SpeedCadence_processData c (b0 # rest) = Inr (c, []))"
proof (intro conjI impI)
  obtain s1 where s1:
    "BikeSpeed_processData s (b0 # rest)
       = Inr (s1, if ''onSpeedData'' \<in> bs_callbacks s
                  then [OnSpeedData (bs_speed s1) (bs_distance s1)] else [])"
    "newer (bs_bike_speed_event_time s1) = from_bytes_little (slice 4 6 (b0 # rest))"
    "bs_wheel_circumference s1 = bs_wheel_circumference s"
    "bs_callbacks s1 = bs_callbacks s"
    using BikeSpeed_processData_step [of s b0 rest] by auto
  obtain s2 where s2:
    "BikeSpeed_processData s1 (b0 # rest)
       = Inr (s2, if ''onSpeedData'' \<in> bs_callbacks s
                  then [OnSpeedData (bs_speed s2) (bs_distance s2)] else [])"
    "bs_bike_speed_event_time s2
       = Deque2 (from_bytes_little (slice 4 6 (b0 # rest)))
           (from_bytes_little (slice 4 6 (b0 # rest)))"
    "bs_speed s2 = BikeSpeed_calculate_speed s2 (bs_wheel_circumference s)"
    using BikeSpeed_processData_step [of s1 b0 rest] s1 by auto
  have d: "bs_delta_event_time s2 = 0"
    using s2(2) by (simp add: wrapDifference_self)
  then have "bs_speed s2 = None"
    using s2(3) by (simp add: BikeSpeed_calculate_speed_no_time)
  with s1(1) s2(1) d
  show "\<exists>s1 s2.
      BikeSpeed_processData s (b0 # rest)
        = Inr (s1, if ''onSpeedData'' \<in> bs_callbacks s
                   then [OnSpeedData (bs_speed s1) (bs_distance s1)] else [])
    \<and> BikeSpeed_processData s1 (b0 # rest)
        = Inr (s2, if ''onSpeedData'' \<in> bs_callbacks s
                   then [OnSpeedData None (bs_distance s2)] else [])
    \<and> bs_delta_event_time s2 = 0 \<and> bs_speed s2 = None"
    by (rule_tac x = s1 in exI, rule_tac x = s2 in exI) simp
next
  obtain s1 where s1:
    "BikeCadence_processData b (b0 # rest)
       = Inr (s1, if ''onCadenceData'' \<in> bc_callbacks b
                  then [OnCadenceData (bc_cadence s1)] else [])"
    "newer (bc_bike_cadence_event_time s1) = from_bytes_little (slice 4 6 (b0 # rest))"
    "bc_callbacks s1 = bc_callbacks b"
    using BikeCadence_processData_step [of b b0 rest] by auto
  obtain s2 where s2:
    "BikeCadence_processData s1 (b0 # rest)
       = Inr (s2, if ''onCadenceData'' \<in> bc_callbacks b
                  then [OnCadenceData (bc_cadence s2)] else [])"
    "bc_bike_cadence_event_time s2
       = Deque2 (from_bytes_little (slice 4 6 (b0 # rest)))
           (from_bytes_little (slice 4 6 (b0 # rest)))"
    "bc_cadence s2 = BikeCadence_calculate_cadence s2"
    using BikeCadence_processData_step [of s1 b0 rest] s1 by auto
  have d: "bc_delta_event_time s2 = 0"
    using s2(2) by (simp add: wrapDifference_self)
  then have "bc_cadence s2 = None"
    using s2(3) by (simp add: BikeCadence_calculate_cadence_no_time)
  with s1(1) s2(1) d
  show "\<exists>s1 s2.
      BikeCadence_processData b (b0 # rest)
        = Inr (s1, if ''onCadenceData'' \<in> bc_callbacks b
                   then [OnCadenceData (bc_cadence s1)] else [])
    \<and> BikeCadence_processData s1 (b0 # rest)
        = Inr (s2, if ''onCadenceData'' \<in> bc_callbacks b then [OnCadenceData None] else [])
    \<and> bc_delta_event_time s2 = 0 \<and> bc_cadence s2 = None"
    by (rule_tac x = s1 in exI, rule_tac x = s2 in exI) simp
next
  assume acc: "uint b0 AND 0x0F \<le> 5"
  obtain s1 where s1:
    "SpeedCadence_processData c (b0 # rest)
       = Inr (s1, (if ''onSpeedData'' \<in> sc_callbacks c
                   then [OnSpeedData (sc_speed s1) (sc_distance s1)] else [])
                  @ (if ''onCadenceData'' \<in> sc_callbacks c
                     then [OnCadenceData (sc_cadence s1)] else []))"
    "newer (sc_bike_speed_event_time s1) = from_bytes_little (slice 4 6 (b0 # rest))"
    "newer (sc_bike_cadence_event_time s1) = from_bytes_little (slice 0 2 (b0 # rest))"
    "sc_wheel_circumference s1 = sc_wheel_circumference c"
    "sc_callbacks s1 = sc_callbacks c"
    using SpeedCadence_processData_accept [OF acc, of c rest] by auto
  obtain s2 where s2:
    "SpeedCadence_processData s1 (b0 # rest)
       = Inr (s2, (if ''onSpeedData'' \<in> sc_callbacks c
                   then [OnSpeedData (sc_speed s2) (sc_distance s2)] else [])
                  @ (if ''onCadenceData'' \<in> sc_callbacks c
                     then [OnCadenceData (sc_cadence s2)] else []))"
    "sc_bike_speed_event_time s2
       = Deque2 (from_bytes_little (slice 4 6 (b0 # rest)))
           (from_bytes_little (slice 4 6 (b0 # rest)))"
    "sc_bike_cadence_event_time s2
       = Deque2 (from_bytes_little (slice 0 2 (b0 # rest)))
           (from_bytes_little (slice 0 2 (b0 # rest)))"
    "sc_speed s2 = SpeedCadence_calculate_speed s2 (sc_wheel_circumference c)"
    "sc_cadence s2 = SpeedCadence_calculate_cadence s2"
    using SpeedCadence_processData_accept [OF acc, of s1 rest] s1 by auto
  have d: "sc_speed_delta_event_time s2 = 0" "sc_cadence_delta_event_time s2 = 0"
    using s2(2,3) by (simp_all add: wrapDifference_self)
  then have "sc_speed s2 = None" "sc_cadence s2 = None"
    using s2(4,5)
    by (simp_all add: SpeedCadence_calculate_speed_no_time
        SpeedCadence_calculate_cadence_no_time)
  with s1(1) s2(1) d
  show "\<exists>s1 s2.
         SpeedCadence_processData c (b0 # rest)
           = Inr (s1, (if ''onSpeedData'' \<in> sc_callbacks c
                       then [OnSpeedData (sc_speed s1) (sc_distance s1)] else [])
                      @ (if ''onCadenceData'' \<in> sc_callbacks c
                         then [OnCadenceData (sc_cadence s1)] else []))
       \<and> SpeedCadence_processData s1 (b0 # rest)
           = Inr (s2, (if ''onSpeedData'' \<in> sc_callbacks c
                       then [OnSpeedData None (sc_distance s2)] else [])
                      @ (if ''onCadenceData'' \<in> sc_callbacks c
                         then [OnCadenceData None] else []))
       \<and> sc_speed_delta_event_time s2 = 0 \<and> sc_cadence_delta_event_time s2 = 0
       \<and> sc_speed s2 = None \<and> sc_cadence s2 = None"
    by (rule_tac x = s1 in exI, rule_tac x = s2 in exI) simp
next
  assume "5 < uint b0 AND 0x0F"
  then show "SpeedCadence_processData c (b0 # rest) = Inr (c, [])"
    by (rule SpeedCadence_processData_ignore)
qed

text \<open>
  A page processed twice from states that hold two earlier samples.
\<close>

theorem duplicate_page_absent_witness:
  "(\<exists>s1 s2.
      BikeSpeed_processData (bs_state (Deque2 1024 2048) (Deque2 1 2))
        [5, 12, 3, 0, 0, 12, 3, 0] = Inr (s1, [OnSpeedData (bs_speed s1) (bs_distance s1)])
    \<and> BikeSpeed_processData s1 [5, 12, 3, 0, 0, 12, 3, 0]
        = Inr (s2, [OnSpeedData None (bs_distance s2)])
    \<and> bs_delta_event_time s2 = 0 \<and> bs_speed s2 = None)
 \<and> (\<exists>s1 s2.
      BikeCadence_processData (bc_state (Deque2 1024 2048) (Deque2 1 2))
        [5, 12, 3, 0, 0, 12, 3, 0] = Inr (s1, [OnCadenceData (bc_cadence s1)])
    \<and> BikeCadence_processData s1 [5, 12, 3, 0, 0, 12, 3, 0] = Inr (s2, [OnCadenceData None])
    \<and> bc_delta_event_time s2 = 0 \<and> bc_cadence s2 = None)
 \<and> uint (5 :: byte) AND 0x0F \<le> 5
 \<and> (\<exists>s1 s2.
      SpeedCadence_processData
        (sc_state (Deque2 1024 2048) (Deque2 1 2) (Deque2 1024 2048) (Deque2 1 2))
        [5, 12, 3, 0, 0, 12, 3, 0]
        = Inr (s1, [OnSpeedData (sc_speed s1) (sc_distance s1), OnCadenceData (sc_cadence s1)])
    \<and> SpeedCadence_processData s1 [5, 12, 3, 0, 0, 12, 3, 0]
        = Inr (s2, [OnSpeedData None (sc_distance s2), OnCadenceData None])
    \<and> sc_speed_delta_event_time s2 = 0 \<and> sc_cadence_delta_event_time s2 = 0
    \<and> sc_speed s2 = None \<and> sc_cadence s2 = None)
 \<and> 5 < uint (6 :: byte) AND 0x0F
 \<and> SpeedCadence_processData
      (sc_state (Deque2 1024 2048) (Deque2 1 2) (Deque2 1024 2048) (Deque2 1 2))
      [6, 12, 3, 0, 0, 12, 3, 0]
     = Inr (sc_state (Deque2 1024 2048) (Deque2 1 2) (Deque2 1024 2048) (Deque2 1 2), [])"
  using
    duplicate_page_absent
      [of "bs_state (Deque2 1024 2048) (Deque2 1 2)" 5 "[12, 3, 0, 0, 12, 3, 0]"
          "bc_state (Deque2 1024 2048) (Deque2 1 2)"
          "sc_state (Deque2 1024 2048) (Deque2 1 2) (Deque2 1024 2048) (Deque2 1 2)"]
    duplicate_page_absent
      [of "bs_state (Deque2 1024 2048) (Deque2 1 2)" 6 "[12, 3, 0, 0, 12, 3, 0]"
          "bc_state (Deque2 1024 2048) (Deque2 1 2)"
          "sc_state (Deque2 1024 2048) (Deque2 1 2) (Deque2 1024 2048) (Deque2 1 2)"]
  by (simp add: ex_defs)

text \<open>
  Claim C7 as stated, for every decoder and every page, fails on a page that \<open>SpeedCadence\<close>
  ignores. A \<open>SpeedCadence\<close> that has processed two accepted pages one second and one
  revolution apart holds a difference of event time of 1024 and the measurements 7.578 km/h,
  2.105 m and 60 RPM. A page with nibble 6 leaves that state as it is, however often it is
  processed: the difference of event time stays 1024, not 0, the stored speed and cadence
  stay numbers, and no measurement is reported.
\<close>

theorem duplicate_ignored_page_counterexample:
  "SpeedCadence_processData (SpeedCadence_init 2.105 {''onSpeedData'', ''onCadenceData''})
     [0, 4, 1, 0, 0, 4, 1, 0]
     = Inr ((sc_state (Deque2 0 1024) (Deque2 0 1) (Deque2 0 1024) (Deque2 0 1))
              \<lparr> sc_speed := None, sc_cadence := None, sc_distance := None \<rparr>,
            [OnSpeedData None None, OnCadenceData None])
 \<and> SpeedCadence_processData
      ((sc_state (Deque2 0 1024) (Deque2 0 1) (Deque2 0 1024) (Deque2 0 1))
         \<lparr> sc_speed := None, sc_cadence := None, sc_distance := None \<rparr>)
      [0, 8, 2, 0, 0, 8, 2, 0]
     = Inr ((sc_state (Deque2 1024 2048) (Deque2 1 2) (Deque2 1024 2048) (Deque2 1 2))
              \<lparr> sc_speed := Some 7.578, sc_cadence := Some 60, sc_distance := Some 2.105 \<rparr>,
            [OnSpeedData (Some 7.578) (Some 2.105), OnCadenceData (Some 60)])
 \<and> SpeedCadence_processData
      ((sc_state (Deque2 1024 2048) (Deque2 1 2) (Deque2 1024 2048) (Deque2 1 2))
         \<lparr> sc_speed := Some 7.578, sc_cadence := Some 60, sc_distance := Some 2.105 \<rparr>)
      [6, 12, 3, 0, 0, 12, 3, 0]
     = Inr ((sc_state (Deque2 1024 2048) (Deque2 1 2) (Deque2 1024 2048) (Deque2 1 2))
              \<lparr> sc_speed := Some 7.578, sc_cadence := Some 60, sc_distance := Some 2.105 \<rparr>,
            [])
 \<and> sc_speed_delta_event_time
      ((sc_state (Deque2 1024 2048) (Deque2 1 2) (Deque2 1024 2048) (Deque2 1 2))
         \<lparr> sc_speed := Some 7.578, sc_cadence := Some 60, sc_distance := Some 2.105 \<rparr>)
     = 1024
 \<and> sc_cadence_delta_event_time
      ((sc_state (Deque2 1024 2048) (Deque2 1 2) (Deque2 1024 2048) (Deque2 1 2))
         \<lparr> sc_speed := Some 7.578, sc_cadence := Some 60, sc_distance := Some 2.105 \<rparr>)
     = 1024"
  apply (simp add: ex_defs SpeedCadence_processData_def slice_def Let_def)
  apply (simp add: SpeedCadence_calculate_speed_def SpeedCadence_calculate_distance_def
      SpeedCadence_calculate_cadence_def wrapDifference_def)
  done

subsection \<open>The page filter of SpeedCadence\<close>

text \<open>
  Claim C8. A page whose byte 0 has a low nibble above 5 leaves the whole \<open>SpeedCadence\<close>
  state, so all four histories, unchanged and makes no call. A page with a nibble of at most 5
  is accepted: the cadence event time is read from bytes 0 and 1, the cadence revolutions
  from bytes 2 and 3, the speed event time from bytes 4 and 5 and the speed revolutions from
  bytes 6 and 7, each little-endian, and appended to its history; the registered callbacks
  are called, speed first.
\<close>

theorem combined_page_filter:
  "(5 < uint b0 AND 0x0F \<longrightarrow> SpeedCadence_processData s (b0 # rest) = Inr (s, []))
 \<and> (uint b0 AND 0x0F \<le> 5 \<longrightarrow>
      (\<exists>s'. SpeedCadence_processData s [b0, b1, b2, b3, b4, b5, b6, b7]
               = Inr (s', (if ''onSpeedData'' \<in> sc_callbacks s
                           then [OnSpeedData (sc_speed s') (sc_distance s')] else [])
                          @ (if ''onCadenceData'' \<in> sc_callbacks s
                             then [OnCadenceData (sc_cadence s')] else []))
          \<and> sc_bike_cadence_event_time s'
              = Deque2 (newer (sc_bike_cadence_event_time s)) (uint b0 + 256 * uint b1)
          \<and> sc_cumulative_cadence_revolution s'
              = Deque2 (newer (sc_cumulative_cadence_revolution s)) (uint b2 + 256 * uint b3)
          \<and> sc_bike_speed_event_time s'
              = Deque2 (newer (sc_bike_speed_event_time s)) (uint b4 + 256 * uint b5)
          \<and> sc_cumulative_speed_revolution s'
              = Deque2 (newer (sc_cumulative_speed_revolution s)) (uint b6 + 256 * uint b7)))"
proof (intro conjI impI)
  assume "5 < uint b0 AND 0x0F"
  then show "SpeedCadence_processData s (b0 # rest) = Inr (s, [])"
    by (rule SpeedCadence_processData_ignore)
next
  assume acc: "uint b0 AND 0x0F \<le> 5"
  show "\<exists>s'. SpeedCadence_processData s [b0, b1, b2, b3, b4, b5, b6, b7]
               = Inr (s', (if ''onSpeedData'' \<in> sc_callbacks s
                           then [OnSpeedData (sc_speed s') (sc_distance s')] else [])
                          @ (if ''onCadenceData'' \<in> sc_callbacks s
                             then [OnCadenceData (sc_cadence s')] else []))
          \<and> sc_bike_cadence_event_time s'
              = Deque2 (newer (sc_bike_cadence_event_time s)) (uint b0 + 256 * uint b1)
          \<and> sc_cumulative_cadence_revolution s'
              = Deque2 (newer (sc_cumulative_cadence_revolution s)) (uint b2 + 256 * uint b3)
          \<and> sc_bike_speed_event_time s'
              = Deque2 (newer (sc_bike_speed_event_time s)) (uint b4 + 256 * uint b5)
          \<and> sc_cumulative_speed_revolution s'
              = Deque2 (newer (sc_cumulative_speed_revolution s)) (uint b6 + 256 * uint b7)"
  proof -
    obtain s' where s':
      "SpeedCadence_processData s [b0, b1, b2, b3, b4, b5, b6, b7]
         = Inr (s', (if ''onSpeedData'' \<in> sc_callbacks s
                     then [OnSpeedData (sc_speed s') (sc_distance s')] else [])
                    @ (if ''onCadenceData'' \<in> sc_callbacks s
                       then [OnCadenceData (sc_cadence s')] else []))"
      "sc_bike_cadence_event_time s'
         = Deque2 (newer (sc_bike_cadence_event_time s))
             (from_bytes_little (slice 0 2 [b0, b1, b2, b3, b4, b5, b6, b7]))"
      "sc_cumulative_cadence_revolution s'
         = Deque2 (newer (sc_cumulative_cadence_revolution s))
             (from_bytes_little (slice 2 4 [b0, b1, b2, b3, b4, b5, b6, b7]))"
      "sc_bike_speed_event_time s'
         = Deque2 (newer (sc_bike_speed_event_time s))
             (from_bytes_little (slice 4 6 [b0, b1, b2, b3, b4, b5, b6, b7]))"
      "sc_cumulative_speed_revolution s'
         = Deque2 (newer (sc_cumulative_speed_revolution s))
             (from_bytes_little (slice 6 8 [b0, b1, b2, b3, b4, b5, b6, b7]))"
      using SpeedCadence_processData_accept [OF acc, of s "[b1, b2, b3, b4, b5, b6, b7]"]
      by blast
    show ?thesis
      using s'(1) by (rule_tac x = s' in exI) (simp add: s'(2-5) slice_page)
  qed
qed

text \<open>
  A page with nibble 6 and a page with nibble 5 on a state holding two samples.
\<close>

theorem combined_page_filter_witness:
  "5 < uint (6 :: byte) AND 0x0F
 \<and> SpeedCadence_processData
      (sc_state (Deque2 1024 2048) (Deque2 1 2) (Deque2 1024 2048) (Deque2 1 2))
      [6, 12, 3, 0, 0, 12, 3, 0]
     = Inr (sc_state (Deque2 1024 2048) (Deque2 1 2) (Deque2 1024 2048) (Deque2 1 2), [])
 \<and> uint (5 :: byte) AND 0x0F \<le> 5
 \<and> (\<exists>s'. SpeedCadence_processData
             (sc_state (Deque2 1024 2048) (Deque2 1 2) (Deque2 1024 2048) (Deque2 1 2))
             [5, 12, 3, 0, 0, 12, 4, 0]
            = Inr (s', [OnSpeedData (sc_speed s') (sc_distance s'),
                        OnCadenceData (sc_cadence s')])
        \<and> sc_bike_cadence_event_time s' = Deque2 2048 3077
        \<and> sc_cumulative_cadence_revolution s' = Deque2 2 3
        \<and> sc_bike_speed_event_time s' = Deque2 2048 3072
        \<and> sc_cumulative_speed_revolution s' = Deque2 2 4)"
  using
    combined_page_filter
      [of 6 "sc_state (Deque2 1024 2048) (Deque2 1 2) (Deque2 1024 2048) (Deque2 1 2)"
          "[12, 3, 0, 0, 12, 3, 0]"]
    combined_page_filter
      [of 5 "sc_state (Deque2 1024 2048) (Deque2 1 2) (Deque2 1024 2048) (Deque2 1 2)"
          "[]" 12 3 0 0 12 4 0]
  by (simp add: ex_defs)

subsection \<open>The toggle latch\<close>

text \<open>
  Claim C9. For \<open>BikeSpeed\<close> and \<open>BikeCadence\<close>: the flag \<open>_page_toggle_observed\<close> is false
  after construction; after processing a non-empty sequence of pages from construction it is
  true exactly if one of the later pages has a toggle bit different from that of the first
  page, so it becomes true at the first such page; and once true it is true after every
  further run of pages. With the toggle bits 0, 0, 1, 1, 0 it is false after two pages and
  true after three, four and five.
\<close>

theorem toggle_latch:
  "\<not> bs_page_toggle_observed (BikeSpeed_init wc cbs)
 \<and> \<not> bc_page_toggle_observed (BikeCadence_init cbs)
 \<and> ((\<forall>d \<in> set (p # ps). d \<noteq> []) \<longrightarrow>
      (\<exists>s. BikeSpeed_processAll (BikeSpeed_init wc cbs) (p # ps) = Inr s
         \<and> bs_page_toggle_observed s = (\<exists>d \<in> set ps. toggle_bit d \<noteq> toggle_bit p))
    \<and> (\<exists>s. BikeCadence_processAll (BikeCadence_init cbs) (p # ps) = Inr s
         \<and> bc_page_toggle_observed s = (\<exists>d \<in> set ps. toggle_bit d \<noteq> toggle_bit p)))
 \<and> ((\<forall>d \<in> set ds. d \<noteq> []) \<and> bs_page_toggle_observed s \<longrightarrow>
      (\<exists>s'. BikeSpeed_processAll s ds = Inr s' \<and> bs_page_toggle_observed s'))
 \<and> ((\<forall>d \<in> set ds. d \<noteq> []) \<and> bc_page_toggle_observed b \<longrightarrow>
      (\<exists>b'. BikeCadence_processAll b ds = Inr b' \<and> bc_page_toggle_observed b'))
 \<and> (toggle_bit p1 = Some 0 \<and> toggle_bit p2 = Some 0 \<and> toggle_bit p3 = Some 1
      \<and> toggle_bit p4 = Some 1 \<and> toggle_bit p5 = Some 0 \<longrightarrow>
      (\<exists>s. BikeSpeed_processAll (BikeSpeed_init wc cbs) [p1, p2] = Inr s
         \<and> \<not> bs_page_toggle_observed s)
    \<and> (\<exists>s. BikeSpeed_processAll (BikeSpeed_init wc cbs) [p1, p2, p3] = Inr s
         \<and> bs_page_toggle_observed s)
    \<and> (\<exists>s. BikeSpeed_processAll (BikeSpeed_init wc cbs) [p1, p2, p3, p4] = Inr s
         \<and> bs_page_toggle_observed s)
    \<and> (\<exists>s. BikeSpeed_processAll (BikeSpeed_init wc cbs) [p1, p2, p3, p4, p5] = Inr s
         \<and> bs_page_toggle_observed s)
    \<and> (\<exists>s. BikeCadence_processAll (BikeCadence_init cbs) [p1, p2] = Inr s
         \<and> \<not> bc_page_toggle_observed s)
    \<and> (\<exists>s. BikeCadence_processAll (BikeCadence_init cbs) [p1, p2, p3] = Inr s
         \<and> bc_page_toggle_observed s)
    \<and> (\<exists>s. BikeCadence_processAll (BikeCadence_init cbs) [p1, p2, p3, p4] = Inr s
         \<and> bc_page_toggle_observed s)
    \<and> (\<exists>s. BikeCadence_processAll (BikeCadence_init cbs) [p1, p2, p3, p4, p5] = Inr s
         \<and> bc_page_toggle_observed s))"
proof (intro conjI impI)
  assume t: "toggle_bit p1 = Some 0 \<and> toggle_bit p2 = Some 0 \<and> toggle_bit p3 = Some 1
      \<and> toggle_bit p4 = Some 1 \<and> toggle_bit p5 = Some 0"
  then have ne: "p1 \<noteq> []" "p2 \<noteq> []" "p3 \<noteq> []" "p4 \<noteq> []" "p5 \<noteq> []"
    by auto
  show "\<exists>s. BikeSpeed_processAll (BikeSpeed_init wc cbs) [p1, p2] = Inr s
         \<and> \<not> bs_page_toggle_observed s"
    using BikeSpeed_processAll_init [of p1 "[p2]" wc cbs] t ne by simp
  show "\<exists>s. BikeSpeed_processAll (BikeSpeed_init wc cbs) [p1, p2, p3] = Inr s
         \<and> bs_page_toggle_observed s"
    using BikeSpeed_processAll_init [of p1 "[p2, p3]" wc cbs] t ne by simp
  show "\<exists>s. BikeSpeed_processAll (BikeSpeed_init wc cbs) [p1, p2, p3, p4] = Inr s
         \<and> bs_page_toggle_observed s"
    using BikeSpeed_processAll_init [of p1 "[p2, p3, p4]" wc cbs] t ne by simp
  show "\<exists>s. BikeSpeed_processAll (BikeSpeed_init wc cbs) [p1, p2, p3, p4, p5] = Inr s
         \<and> bs_page_toggle_observed s"
    using BikeSpeed_processAll_init [of p1 "[p2, p3, p4, p5]" wc cbs] t ne by simp
  show "\<exists>s. BikeCadence_processAll (BikeCadence_init cbs) [p1, p2] = Inr s
         \<and> \<not> bc_page_toggle_observed s"
    using BikeCadence_processAll_init [of p1 "[p2]" cbs] t ne by simp
  show "\<exists>s. BikeCadence_processAll (BikeCadence_init cbs) [p1, p2, p3] = Inr s
         \<and> bc_page_toggle_observed s"
    using BikeCadence_processAll_init [of p1 "[p2, p3]" cbs] t ne by simp
  show "\<exists>s. BikeCadence_processAll (BikeCadence_init cbs) [p1, p2, p3, p4] = Inr s
         \<and> bc_page_toggle_observed s"
    using BikeCadence_processAll_init [of p1 "[p2, p3, p4]" cbs] t ne by simp
  show "\<exists>s. BikeCadence_processAll (BikeCadence_init cbs) [p1, p2, p3, p4, p5] = Inr s
         \<and> bc_page_toggle_observed s"
    using BikeCadence_processAll_init [of p1 "[p2, p3, p4, p5]" cbs] t ne by simp
qed (use BikeSpeed_processAll_init [of p ps wc cbs] BikeCadence_processAll_init [of p ps cbs]
    BikeSpeed_processAll_latched [of s ds] BikeCadence_processAll_latched [of b ds]
  in \<open>simp_all add: BikeSpeed_init_def BikeCadence_init_def\<close>)

text \<open>
  The sequence on concrete pages, and a latched state processing one more page.
\<close>

theorem toggle_latch_witness:
  "map_sum id bs_page_toggle_observed
     (BikeSpeed_processAll (BikeSpeed_init 2.105 {})
        [[0x00, 0, 0, 0, 0, 4, 1, 0], [0x00, 0, 0, 0, 0, 8, 2, 0]]) = Inr False
 \<and> map_sum id bs_page_toggle_observed
     (BikeSpeed_processAll (BikeSpeed_init 2.105 {})
        [[0x00, 0, 0, 0, 0, 4, 1, 0], [0x00, 0, 0, 0, 0, 8, 2, 0],
         [0x80, 0, 0, 0, 0, 12, 3, 0]]) = Inr True
 \<and> map_sum id bs_page_toggle_observed
     (BikeSpeed_processAll (BikeSpeed_init 2.105 {})
        [[0x00, 0, 0, 0, 0, 4, 1, 0], [0x00, 0, 0, 0, 0, 8, 2, 0],
         [0x80, 0, 0, 0, 0, 12, 3, 0], [0x80, 0, 0, 0, 0, 16, 4, 0],
         [0x00, 0, 0, 0, 0, 20, 5, 0]]) = Inr True
 \<and> map_sum id bc_page_toggle_observed
     (BikeCadence_processAll (BikeCadence_init {})
        [[0x00, 0, 0, 0, 0, 4, 1, 0], [0x00, 0, 0, 0, 0, 8, 2, 0],
         [0x80, 0, 0, 0, 0, 12, 3, 0], [0x80, 0, 0, 0, 0, 16, 4, 0],
         [0x00, 0, 0, 0, 0, 20, 5, 0]]) = Inr True
 \<and> map_sum id bs_page_toggle_observed
     (BikeSpeed_processAll
        ((BikeSpeed_init 2.105 {})\<lparr>bs_page_toggle_observed := True, bs_page_toggle := Some 1\<rparr>)
        [[0x80, 0, 0, 0, 0, 16, 4, 0]]) = Inr True
 \<and> map_sum id bc_page_toggle_observed
     (BikeCadence_processAll
        ((BikeCadence_init {})\<lparr>bc_page_toggle_observed := True, bc_page_toggle := Some 1\<rparr>)
        [[0x80, 0, 0, 0, 0, 16, 4, 0]]) = Inr True"
  using toggle_latch
    [of "2.105" "{}" "[0x00, 0, 0, 0, 0, 4, 1, 0]"
        "[[0x00, 0, 0, 0, 0, 8, 2, 0], [0x80, 0, 0, 0, 0, 12, 3, 0]]"
        "[[0x80, 0, 0, 0, 0, 16, 4, 0]]"
        "(BikeSpeed_init 2.105 {})\<lparr>bs_page_toggle_observed := True, bs_page_toggle := Some 1\<rparr>"
        "(BikeCadence_init {})\<lparr>bc_page_toggle_observed := True, bc_page_toggle := Some 1\<rparr>"
        "[0x00, 0, 0, 0, 0, 4, 1, 0]" "[0x00, 0, 0, 0, 0, 8, 2, 0]"
        "[0x80, 0, 0, 0, 0, 12, 3, 0]" "[0x80, 0, 0, 0, 0, 16, 4, 0]"
        "[0x00, 0, 0, 0, 0, 20, 5, 0]"]
  by auto

subsection \<open>Distance\<close>

text \<open>
  Claim C10. \<open>calculate_distance\<close> returns \<open>None\<close> exactly when the older revolution count is
  0, and otherwise the number \<open>wheel_circumference * delta_revolutions\<close>. It does not read the
  event times: replacing their deque does not change the result. So it returns a number where
  the older event time is 0, where \<open>calculate_speed\<close> returns \<open>None\<close>, and it returns 0, not
  \<open>None\<close>, where the two revolution counts are equal and nonzero, as after a duplicate page.
  Both \<open>BikeSpeed.calculate_distance\<close> and \<open>SpeedCadence.calculate_distance\<close>.
\<close>

theorem calculate_distance_cases:
  "(BikeSpeed_calculate_distance s wc = None
      \<longleftrightarrow> older (bs_cumulative_speed_revolution s) = 0)
 \<and> (older (bs_cumulative_speed_revolution s) \<noteq> 0
      \<longrightarrow> BikeSpeed_calculate_distance s wc = Some (wc * of_int (bs_delta_rev_count s)))
 \<and> BikeSpeed_calculate_distance (s\<lparr>bs_bike_speed_event_time := t\<rparr>) wc
     = BikeSpeed_calculate_distance s wc
 \<and> (older (bs_cumulative_speed_revolution s) \<noteq> 0 \<and> older (bs_bike_speed_event_time s) = 0
      \<longrightarrow> BikeSpeed_calculate_distance s wc = Some (wc * of_int (bs_delta_rev_count s))
        \<and> BikeSpeed_calculate_speed s wc = None)
 \<and> (older (bs_cumulative_speed_revolution s) \<noteq> 0
      \<and> newer (bs_cumulative_speed_revolution s) = older (bs_cumulative_speed_revolution s)
      \<longrightarrow> BikeSpeed_calculate_distance s wc = Some 0)
 \<and> (SpeedCadence_calculate_distance c wc = None
      \<longleftrightarrow> older (sc_cumulative_speed_revolution c) = 0)
 \<and> (older (sc_cumulative_speed_revolution c) \<noteq> 0
      \<longrightarrow> SpeedCadence_calculate_distance c wc
          = Some (wc * of_int (sc_speed_delta_rev_count c)))
 \<and> SpeedCadence_calculate_distance (c\<lparr>sc_bike_speed_event_time := t\<rparr>) wc
     = SpeedCadence_calculate_distance c wc
 \<and> (older (sc_cumulative_speed_revolution c) \<noteq> 0 \<and> older (sc_bike_speed_event_time c) = 0
      \<longrightarrow> SpeedCadence_calculate_distance c wc
          = Some (wc * of_int (sc_speed_delta_rev_count c))
        \<and> SpeedCadence_calculate_speed c wc = None)
 \<and> (older (sc_cumulative_speed_revolution c) \<noteq> 0
      \<and> newer (sc_cumulative_speed_revolution c) = older (sc_cumulative_speed_revolution c)
      \<longrightarrow> SpeedCadence_calculate_distance c wc = Some 0)"
  by (simp add: BikeSpeed_calculate_distance_def SpeedCadence_calculate_distance_def
      BikeSpeed_calculate_speed_def SpeedCadence_calculate_speed_def wrapDifference_self)

text \<open>
  An older event time of 0 with a number for the distance and \<open>None\<close> for the speed; equal
  revolution counts with distance 0; an older revolution count of 0 with no distance.
\<close>

theorem calculate_distance_cases_witness:
  "BikeSpeed_calculate_distance (bs_state (Deque2 0 1024) (Deque2 7 8)) 2.105 = Some 2.105
 \<and> BikeSpeed_calculate_speed (bs_state (Deque2 0 1024) (Deque2 7 8)) 2.105 = None
 \<and> SpeedCadence_calculate_distance
      (sc_state (Deque2 0 0) (Deque2 0 0) (Deque2 0 1024) (Deque2 7 8)) 2.105 = Some 2.105
 \<and> SpeedCadence_calculate_speed
      (sc_state (Deque2 0 0) (Deque2 0 0) (Deque2 0 1024) (Deque2 7 8)) 2.105 = None
 \<and> BikeSpeed_calculate_distance (bs_state (Deque2 1024 1024) (Deque2 7 7)) 2.105 = Some 0
 \<and> SpeedCadence_calculate_distance
      (sc_state (Deque2 0 0) (Deque2 0 0) (Deque2 1024 1024) (Deque2 7 7)) 2.105 = Some 0
 \<and> BikeSpeed_calculate_distance (bs_state (Deque2 1024 2048) (Deque2 0 1)) 2.105 = None"
  using
    calculate_distance_cases
      [of "bs_state (Deque2 0 1024) (Deque2 7 8)" "2.105"
          "Deque2 0 0"
          "sc_state (Deque2 0 0) (Deque2 0 0) (Deque2 0 1024) (Deque2 7 8)"]
    calculate_distance_cases
      [of "bs_state (Deque2 1024 1024) (Deque2 7 7)" "2.105"
          "Deque2 0 0"
          "sc_state (Deque2 0 0) (Deque2 0 0) (Deque2 1024 1024) (Deque2 7 7)"]
    calculate_distance_cases
      [of "bs_state (Deque2 1024 2048) (Deque2 0 1)" "2.105"
          "Deque2 0 0"
          "sc_state (Deque2 0 0) (Deque2 0 0) (Deque2 1024 1024) (Deque2 7 7)"]
  by (simp add: ex_defs wrapDifference_def)

end
